theory Spec2Isabelle
  imports Complex_Main "HOL-Library.AList" "HOL-Library.Multiset"
begin

section \<open>JavaScript numbers\<close>

text \<open>
  A JavaScript number is a binary64 value: a finite value, one of the two infinities, or
  NaN. A finite value is held as the real number it denotes, and every arithmetic
  operation rounds its exact result to binary64 as IEEE 754 prescribes: to the nearest
  representable value, a tie to the one with the even significand, a result of magnitude
  \<open>2\<^sup>1\<^sup>0\<^sup>2\<^sup>4\<close> or more to an infinity, with gradual underflow below \<open>2\<^sup>-\<^sup>1\<^sup>0\<^sup>2\<^sup>2\<close>. The
  one thing left out is the sign of zero.
\<close>

datatype jsnum = Fin real | PInf | NInf | NaN

text \<open>Rounding to the nearest integer, a tie to the even one.\<close>

definition rne :: "real \<Rightarrow> int" where
  "rne t =
     (let f = \<lfloor>t\<rfloor>; d = t - of_int f
      in if d < 1 / 2 then f
         else if 1 / 2 < d then f + 1
         else if even f then f else f + 1)"

text \<open>
  The binade of a magnitude: its exponent \<open>e\<close>, from \<open>-1022\<close> (where the subnormal
  numbers are) up to \<open>1024\<close> (beyond the largest finite number), and the spacing
  \<open>u = 2\<^sup>e\<^sup>-\<^sup>5\<^sup>2\<close> of the binary64 values there. \<open>expo_up\<close> halves a magnitude from \<open>1\<close>
  on until it is below \<open>2\<close>, \<open>expo_down\<close> doubles a magnitude below \<open>1\<close> until it has
  reached \<open>1\<close>; both start at exponent \<open>0\<close> and spacing \<open>2\<^sup>-\<^sup>5\<^sup>2\<close>.
\<close>

function expo_up :: "real \<Rightarrow> int \<Rightarrow> real \<Rightarrow> int \<times> real" where
  "expo_up x e u = (if x < 2 \<or> 1024 \<le> e then (e, u) else expo_up (x / 2) (e + 1) (u * 2))"
  by pat_completeness auto
termination
  by (relation "measure (\<lambda>(x, e, u). nat (1024 - e))") auto

function expo_down :: "real \<Rightarrow> int \<Rightarrow> real \<Rightarrow> int \<times> real" where
  "expo_down x e u =
     (if 1 \<le> x \<or> e \<le> - 1022 then (e, u) else expo_down (x * 2) (e - 1) (u / 2))"
  by pat_completeness auto
termination
  by (relation "measure (\<lambda>(x, e, u). nat (e + 1022))") auto

declare expo_up.simps [simp del] expo_down.simps [simp del]

definition binade :: "real \<Rightarrow> int \<times> real" where
  "binade x =
     (if 1 \<le> \<bar>x\<bar> then expo_up \<bar>x\<bar> 0 (1 / 2 ^ 52)
      else expo_down \<bar>x\<bar> 0 (1 / 2 ^ 52))"

text \<open>
  The binary64 value of a real number. The significand \<open>m\<close> is the number in units of the
  spacing, rounded; the result overflows when the exponent is \<open>1024\<close>, or is \<open>1023\<close> and
  the significand has been rounded up to \<open>2\<^sup>5\<^sup>3\<close>.
\<close>

definition fl :: "real \<Rightarrow> jsnum" where
  "fl x =
     (if x = 0 then Fin 0
      else
        case binade x of
          (e, u) \<Rightarrow>
            let m = rne (x / u)
            in if 1024 \<le> e \<or> (e = 1023 \<and> 2 ^ 53 \<le> \<bar>m\<bar>)
               then (if 0 < x then PInf else NInf)
               else Fin (of_int m * u))"

text \<open>A real number that is a binary64 value, and a number that is not NaN.\<close>

definition representable :: "real \<Rightarrow> bool" where
  "representable r = (fl r = Fin r)"

fun is_numeric :: "jsnum \<Rightarrow> bool" where
  "is_numeric (Fin r) = representable r"
| "is_numeric PInf = True"
| "is_numeric NInf = True"
| "is_numeric NaN = False"

fun jneg :: "jsnum \<Rightarrow> jsnum" where
  "jneg (Fin a) = Fin (- a)"
| "jneg PInf = NInf"
| "jneg NInf = PInf"
| "jneg NaN = NaN"

fun jadd :: "jsnum \<Rightarrow> jsnum \<Rightarrow> jsnum" where
  "jadd (Fin a) (Fin b) = fl (a + b)"
| "jadd NaN _ = NaN"
| "jadd _ NaN = NaN"
| "jadd PInf NInf = NaN"
| "jadd NInf PInf = NaN"
| "jadd PInf _ = PInf"
| "jadd _ PInf = PInf"
| "jadd NInf _ = NInf"
| "jadd _ NInf = NInf"

definition jsub :: "jsnum \<Rightarrow> jsnum \<Rightarrow> jsnum" where
  "jsub a b = jadd a (jneg b)"

text \<open>The sign of a number that is not NaN: \<open>-1\<close>, \<open>0\<close> or \<open>1\<close>.\<close>

fun jsign :: "jsnum \<Rightarrow> int" where
  "jsign (Fin a) = (if a < 0 then - 1 else if a = 0 then 0 else 1)"
| "jsign PInf = 1"
| "jsign NInf = - 1"
| "jsign NaN = 0"

definition inf_of_sign :: "int \<Rightarrow> jsnum" where
  "inf_of_sign s = (if s = 0 then NaN else if 0 < s then PInf else NInf)"

fun jmul :: "jsnum \<Rightarrow> jsnum \<Rightarrow> jsnum" where
  "jmul (Fin a) (Fin b) = fl (a * b)"
| "jmul NaN _ = NaN"
| "jmul _ NaN = NaN"
| "jmul a b = inf_of_sign (jsign a * jsign b)"

text \<open>
  Division. A finite zero divisor is taken as positive zero, so a non-zero finite
  dividend gives the infinity of its own sign and \<open>0 / 0\<close> is NaN.
\<close>

fun jdiv :: "jsnum \<Rightarrow> jsnum \<Rightarrow> jsnum" where
  "jdiv NaN _ = NaN"
| "jdiv _ NaN = NaN"
| "jdiv (Fin a) (Fin b) = (if b = 0 then inf_of_sign (jsign (Fin a)) else fl (a / b))"
| "jdiv (Fin a) _ = Fin 0"
| "jdiv a (Fin b) = inf_of_sign (jsign a * (if b < 0 then - 1 else 1))"
| "jdiv _ _ = NaN"

fun jsqrt :: "jsnum \<Rightarrow> jsnum" where
  "jsqrt (Fin a) = (if a < 0 then NaN else fl (sqrt a))"
| "jsqrt PInf = PInf"
| "jsqrt NInf = NaN"
| "jsqrt NaN = NaN"

text \<open>\<^verbatim>\<open>a < b\<close>: false as soon as one side is NaN.\<close>

fun jlt :: "jsnum \<Rightarrow> jsnum \<Rightarrow> bool" where
  "jlt (Fin a) (Fin b) = (a < b)"
| "jlt NaN _ = False"
| "jlt _ NaN = False"
| "jlt NInf NInf = False"
| "jlt NInf _ = True"
| "jlt PInf _ = False"
| "jlt _ PInf = True"
| "jlt _ NInf = False"

definition jgt :: "jsnum \<Rightarrow> jsnum \<Rightarrow> bool" where
  "jgt a b = jlt b a"

definition isNaN :: "jsnum \<Rightarrow> bool" where
  "isNaN a = (a = NaN)"

definition isFinite :: "jsnum \<Rightarrow> bool" where
  "isFinite a = (case a of Fin _ \<Rightarrow> True | _ \<Rightarrow> False)"

text \<open>\<^verbatim>\<open>a.reduce((s, v) => s + v, 0)\<close>\<close>

definition sum_reduce :: "jsnum list \<Rightarrow> jsnum" where
  "sum_reduce xs = foldl jadd (Fin 0) xs"

section \<open>MathEngine: correlation and trend\<close>

text \<open>
  \<^verbatim>\<open>calculateCorrelation\<close> (the same text in both application variants). The
  radicand and the denominator are named, as the source names \<^verbatim>\<open>denominator\<close>.
  \<^verbatim>\<open>y[i]\<close> is read only after the length test, so \<open>zip\<close> pairs every
  \<^verbatim>\<open>x[i]\<close> with its \<^verbatim>\<open>y[i]\<close>. \<^verbatim>\<open>sumX ** 2\<close> is the product of \<^verbatim>\<open>sumX\<close> with
  itself.
\<close>

definition sumXY_of :: "jsnum list \<Rightarrow> jsnum list \<Rightarrow> jsnum" where
  "sumXY_of x y = foldl (\<lambda>s (xi, yi). jadd s (jmul xi yi)) (Fin 0) (zip x y)"

definition sumSq_of :: "jsnum list \<Rightarrow> jsnum" where
  "sumSq_of x = foldl (\<lambda>s xi. jadd s (jmul xi xi)) (Fin 0) x"

definition corr_numerator :: "jsnum list \<Rightarrow> jsnum list \<Rightarrow> jsnum" where
  "corr_numerator x y =
     jsub (jmul (Fin (real (length x))) (sumXY_of x y)) (jmul (sum_reduce x) (sum_reduce y))"

definition corr_radicand :: "jsnum list \<Rightarrow> jsnum list \<Rightarrow> jsnum" where
  "corr_radicand x y =
     (let n = Fin (real (length x));
          sumX = sum_reduce x;
          sumY = sum_reduce y
      in jmul (jsub (jmul n (sumSq_of x)) (jmul sumX sumX))
              (jsub (jmul n (sumSq_of y)) (jmul sumY sumY)))"

definition corr_denominator :: "jsnum list \<Rightarrow> jsnum list \<Rightarrow> jsnum" where
  "corr_denominator x y = jsqrt (corr_radicand x y)"

definition calculateCorrelation :: "jsnum list \<Rightarrow> jsnum list \<Rightarrow> jsnum" where
  "calculateCorrelation x y =
     (if length x \<noteq> length y \<or> length x = 0 then Fin 0
      else if corr_denominator x y = Fin 0 then Fin 0
      else jdiv (corr_numerator x y) (corr_denominator x y))"

text \<open>
  \<^verbatim>\<open>calculateTrend\<close> returns an object whose fields depend on the branch: the two
  early returns carry \<^verbatim>\<open>slope\<close>, \<^verbatim>\<open>nextVal\<close> and \<^verbatim>\<open>trend\<close>, the
  regular return carries \<^verbatim>\<open>slope\<close>, \<^verbatim>\<open>intercept\<close>, \<^verbatim>\<open>nextVal\<close>
  and \<^verbatim>\<open>trendDirection\<close>. A field that the object does not have is \<open>None\<close>. The
  literal \<^verbatim>\<open>0.05\<close> is the binary64 value nearest to it.
\<close>

record trend_result =
  slope :: jsnum
  intercept :: "jsnum option"
  nextVal :: jsnum
  trend :: "string option"
  trendDirection :: "string option"

definition trend_xs :: "nat \<Rightarrow> jsnum list" where
  "trend_xs n = map (\<lambda>i. Fin (real i)) [0..<n]"

definition trend_denominator :: "nat \<Rightarrow> jsnum" where
  "trend_denominator n =
     jsub (jmul (Fin (real n)) (sumSq_of (trend_xs n)))
          (jmul (sum_reduce (trend_xs n)) (sum_reduce (trend_xs n)))"

definition calculateTrend :: "jsnum list \<Rightarrow> trend_result" where
  "calculateTrend values =
     (let n = length values in
      if n < 2 then
        \<lparr>slope = Fin 0, intercept = None, nextVal = Fin 0,
         trend = Some ''stable'', trendDirection = None\<rparr>
      else
        let x = trend_xs n;
            sumX = sum_reduce x;
            sumY = sum_reduce values;
            sumXY = sumXY_of x values;
            denominator = trend_denominator n
        in if denominator = Fin 0 then
             \<lparr>slope = Fin 0, intercept = None, nextVal = values ! (n - 1),
              trend = Some ''stable'', trendDirection = None\<rparr>
           else
             let slope = jdiv (jsub (jmul (Fin (real n)) sumXY) (jmul sumX sumY)) denominator;
                 intercept = jdiv (jsub sumY (jmul slope sumX)) (Fin (real n));
                 nextVal = jadd (jmul slope (Fin (real n))) intercept;
                 trendDirection =
                   (if jgt slope (fl (5 / 100)) then ''increasing''
                    else if jlt slope (jneg (fl (5 / 100))) then ''decreasing''
                    else ''stable'')
             in \<lparr>slope = slope, intercept = Some intercept, nextVal = nextVal,
                 trend = None, trendDirection = Some trendDirection\<rparr>)"

section \<open>MathEngine: sorting with a comparator, anomalies, insights\<close>

text \<open>
  \<^verbatim>\<open>Array.prototype.sort(compare)\<close> is a stable sort: \<open>b\<close> moves before an earlier
  \<open>a\<close> only when \<^verbatim>\<open>compare(a, b) > 0\<close>, and a comparator result NaN counts as
  \<open>0\<close>. For a comparator that is not a consistent order (a NaN among the numbers) the
  language leaves the result to the implementation; the model then returns what the
  insertion below gives.
\<close>

fun insert_by :: "('a \<Rightarrow> 'a \<Rightarrow> jsnum) \<Rightarrow> 'a \<Rightarrow> 'a list \<Rightarrow> 'a list" where
  "insert_by cmp x [] = [x]"
| "insert_by cmp x (y # ys) =
     (if jgt (cmp x y) (Fin 0) then y # insert_by cmp x ys else x # y # ys)"

definition sort_by :: "('a \<Rightarrow> 'a \<Rightarrow> jsnum) \<Rightarrow> 'a list \<Rightarrow> 'a list" where
  "sort_by cmp xs = foldr (insert_by cmp) xs []"

definition detectAnomalies :: "jsnum list \<Rightarrow> jsnum list" where
  "detectAnomalies values =
     (if length values < 4 then []
      else
        let sorted = sort_by (\<lambda>a b. jsub a b) values;
            q1 = sorted ! nat \<lfloor>real (length sorted) / 4\<rfloor>;
            q3 = sorted ! nat \<lfloor>real (length sorted) * (3 / 4)\<rfloor>;
            iqr = jsub q3 q1;
            lowerBound = jsub q1 (jmul (Fin (15 / 10)) iqr);
            upperBound = jadd q3 (jmul (Fin (15 / 10)) iqr)
        in filter (\<lambda>v. jlt v lowerBound \<or> jgt v upperBound) values)"

text \<open>Decimal digits of a natural number, as template strings print an array length.\<close>

definition digit_char :: "nat \<Rightarrow> char" where
  "digit_char d = ''0123456789'' ! (d mod 10)"

fun show_nat :: "nat \<Rightarrow> string" where
  "show_nat n = (if n < 10 then [digit_char n] else show_nat (n div 10) @ [digit_char (n mod 10)])"

declare show_nat.simps [simp del]

record insight =
  type_ins :: string
  text_ins :: string
  score_ins :: string

record insights_result =
  insights :: "insight list"
  anomalies :: "jsnum list"
  forecast :: jsnum
  trend_slope :: jsnum

text \<open>
  \<^verbatim>\<open>generateInsights\<close> destructures \<^verbatim>\<open>slope\<close>, \<^verbatim>\<open>nextVal\<close> and
  \<^verbatim>\<open>trendDirection\<close> from the trend object; a missing \<^verbatim>\<open>trendDirection\<close> is
  \<^verbatim>\<open>undefined\<close>, which differs from \<^verbatim>\<open>'stable'\<close> and prints as
  \<^verbatim>\<open>undefined\<close>. \<^verbatim>\<open>Number.prototype.toFixed(2)\<close> belongs to the host and is the
  parameter \<open>toFixed2\<close>. The result's \<^verbatim>\<open>nextVal\<close> and \<^verbatim>\<open>slope\<close> are the
  fields \<open>forecast\<close> and \<open>trend_slope\<close>; an insight's \<^verbatim>\<open>type\<close>, \<^verbatim>\<open>text\<close>
  and \<^verbatim>\<open>score\<close> are \<open>type_ins\<close>, \<open>text_ins\<close> and \<open>score_ins\<close>.
\<close>

definition generateInsights :: "(jsnum \<Rightarrow> string) \<Rightarrow> string \<Rightarrow> jsnum list \<Rightarrow> insights_result" where
  "generateInsights toFixed2 colName values =
     (let t = calculateTrend values;
          found = detectAnomalies values;
          i1 = (if trendDirection t \<noteq> Some ''stable'' then
                  [\<lparr>type_ins = ''trend'',
                    text_ins = colName @ '' shows a statistically significant ''
                           @ (case trendDirection t of None \<Rightarrow> ''undefined'' | Some d \<Rightarrow> d)
                           @ '' trend.'',
                    score_ins = ''high''\<rparr>]
                else []);
          i2 = [\<lparr>type_ins = ''prediction'',
                 text_ins = ''Forecasted next value: '' @ toFixed2 (nextVal t) @ ''.'',
                 score_ins = ''medium''\<rparr>];
          i3 = (if length found > 0 then
                  [\<lparr>type_ins = ''anomaly'',
                    text_ins = ''Detected '' @ show_nat (length found)
                           @ '' outliers in the data distribution.'',
                    score_ins = ''critical''\<rparr>]
                else [])
      in \<lparr>insights = i1 @ i2 @ i3, anomalies = found,
          forecast = nextVal t, trend_slope = slope t\<rparr>)"

section \<open>Correlation matrix\<close>

record kpi_base =
  column :: string

record numeric_kpi = kpi_base +
  rawData :: "jsnum list"
  min_kpi :: jsnum
  max_kpi :: jsnum
  avg :: jsnum
  median :: jsnum
  stdDev :: jsnum

text \<open>
  The \<^verbatim>\<open>matrix\<close> of \<^verbatim>\<open>CorrelationView\<close>: the column names and the grid, whose
  cell \<open>(i, j)\<close> is the constant \<open>1\<close> on the diagonal and the correlation of the two raw
  series elsewhere.
\<close>

definition correlation_matrix :: "numeric_kpi list \<Rightarrow> string list \<times> jsnum list list" where
  "correlation_matrix numericKPIs =
     (let headers = map column numericKPIs;
          grid = map (\<lambda>i. map (\<lambda>j. if i = j then Fin 1
                                    else calculateCorrelation (rawData (numericKPIs ! i))
                                                              (rawData (numericKPIs ! j)))
                                [0..<length headers])
                     [0..<length headers]
      in (headers, grid))"



section \<open>Properties of the statistics\<close>

subsection \<open>Rounding\<close>

text \<open>
  The two searches unfold one step at a time, which is how a rounding is evaluated on a
  given number.
\<close>

lemma expo_up_stop: "x < 2 \<or> 1024 \<le> e \<Longrightarrow> expo_up x e u = (e, u)"
  by (simp add: expo_up.simps)

lemma expo_up_step:
  "\<not> x < 2 \<Longrightarrow> \<not> 1024 \<le> e \<Longrightarrow> expo_up x e u = expo_up (x / 2) (e + 1) (u * 2)"
  using expo_up.simps [of x e u] by simp

lemma expo_down_stop: "1 \<le> x \<or> e \<le> - 1022 \<Longrightarrow> expo_down x e u = (e, u)"
  by (simp add: expo_down.simps)

lemma expo_down_step:
  "\<not> 1 \<le> x \<Longrightarrow> \<not> e \<le> - 1022 \<Longrightarrow> expo_down x e u = expo_down (x * 2) (e - 1) (u / 2)"
  using expo_down.simps [of x e u] by simp

lemmas fl_eval =
  fl_def binade_def rne_def expo_up_stop expo_up_step expo_down_stop expo_down_step Let_def

text \<open>\<^verbatim>\<open>Number.MIN_VALUE\<close>, the least positive binary64 value.\<close>

definition min_value :: real where
  "min_value = 1 / 2 ^ 1074"

lemma min_value_pos: "0 < min_value"
  by (simp add: min_value_def)

lemma rne_ge_1: "1 \<le> t \<Longrightarrow> 1 \<le> rne t"
  by (auto simp: rne_def Let_def; linarith)

lemma rne_le_m1: "t \<le> - 1 \<Longrightarrow> rne t \<le> - 1"
  by (auto simp: rne_def Let_def; linarith)

lemma expo_up_inv:
  "expo_up x e u = (e', u') \<Longrightarrow> 1 \<le> x \<Longrightarrow> \<exists>k::nat. u' = u * 2 ^ k \<and> 2 ^ k \<le> x"
proof (induction x e u rule: expo_up.induct)
  case (1 x e u)
  show ?case
  proof (cases "x < 2 \<or> 1024 \<le> e")
    case True
    then have "u' = u" using "1.prems" by (simp add: expo_up_stop)
    then show ?thesis using "1.prems" by (intro exI [of _ 0]) simp
  next
    case False
    then have "expo_up (x / 2) (e + 1) (u * 2) = (e', u')"
      using "1.prems" by (simp add: expo_up_step)
    moreover have "1 \<le> x / 2" using False by simp
    ultimately obtain k :: nat where "u' = u * 2 * 2 ^ k" and "2 ^ k \<le> x / 2"
      using "1.IH" [OF False] by blast
    then show ?thesis by (intro exI [of _ "Suc k"]) simp
  qed
qed

lemma expo_down_inv:
  "expo_down x e u = (e', u') \<Longrightarrow> - 1022 \<le> e \<Longrightarrow>
     \<exists>k::nat. u' = u / 2 ^ k \<and> int k \<le> e + 1022 \<and> (1 \<le> x * 2 ^ k \<or> int k = e + 1022)"
proof (induction x e u rule: expo_down.induct)
  case (1 x e u)
  show ?case
  proof (cases "1 \<le> x \<or> e \<le> - 1022")
    case True
    then have "u' = u" using "1.prems" by (simp add: expo_down_stop)
    then show ?thesis using "1.prems" True by (intro exI [of _ 0]) auto
  next
    case False
    then have "expo_down (x * 2) (e - 1) (u / 2) = (e', u')"
      using "1.prems" by (simp add: expo_down_step)
    moreover have "- 1022 \<le> e - 1" using False by simp
    ultimately obtain k :: nat where "u' = u / 2 / 2 ^ k" and "int k \<le> e - 1 + 1022"
      and "1 \<le> x * 2 * 2 ^ k \<or> int k = e - 1 + 1022"
      using "1.IH" [OF False] by blast
    then show ?thesis by (intro exI [of _ "Suc k"]) (auto simp: field_simps)
  qed
qed

lemma unit_up: "a = b + c \<Longrightarrow> 1 / (2::real) ^ c * 2 ^ k = 2 ^ (k + b) * (1 / 2 ^ a)"
  by (simp add: power_add)

lemma unit_down:
  assumes "k \<le> b" and "a = b + c"
  shows "1 / (2::real) ^ c / 2 ^ k = 2 ^ (b - k) * (1 / 2 ^ a)"
proof -
  obtain d where d: "b = k + d" using assms(1) by (auto simp: le_iff_add)
  show ?thesis unfolding assms(2) d by (simp add: power_add)
qed

text \<open>The spacing of a binade is a power of two times the least positive value.\<close>

lemma binade_unit:
  assumes "binade x = (e, u)"
  shows "\<exists>j::nat. u = 2 ^ j * min_value"
proof (cases "1 \<le> \<bar>x\<bar>")
  case True
  then obtain k :: nat where "u = 1 / 2 ^ 52 * 2 ^ k"
    using assms expo_up_inv [of "\<bar>x\<bar>" 0 "1 / 2 ^ 52" e u] by (auto simp: binade_def)
  then have "u = 2 ^ (k + 1022) * min_value"
    unfolding min_value_def using unit_up [of 1074 1022 52 k] by simp
  then show ?thesis by blast
next
  case False
  then obtain k :: nat where u: "u = 1 / 2 ^ 52 / 2 ^ k" and kk: "int k \<le> 0 + 1022"
    using assms expo_down_inv [of "\<bar>x\<bar>" 0 "1 / 2 ^ 52" e u] by (auto simp: binade_def)
  have "k \<le> 1022" using kk by simp
  then have "u = 2 ^ (1022 - k) * min_value"
    unfolding min_value_def u using unit_down [of k 1022 1074 52] by simp
  then show ?thesis by blast
qed

text \<open>From the least positive value on, the spacing is at most the magnitude.\<close>

lemma binade_le:
  assumes "binade x = (e, u)" and "min_value \<le> \<bar>x\<bar>"
  shows "0 < u \<and> u \<le> \<bar>x\<bar>"
proof -
  obtain j :: nat where j: "u = 2 ^ j * min_value" using binade_unit [OF assms(1)] by blast
  have pos: "0 < u" unfolding j using min_value_pos by simp
  have "u \<le> \<bar>x\<bar>"
  proof (cases "1 \<le> \<bar>x\<bar>")
    case True
    then obtain k :: nat where u: "u = 1 / 2 ^ 52 * 2 ^ k" and k: "2 ^ k \<le> \<bar>x\<bar>"
      using assms expo_up_inv [of "\<bar>x\<bar>" 0 "1 / 2 ^ 52" e u] by (auto simp: binade_def)
    have "u \<le> 2 ^ k" unfolding u by (simp add: field_simps)
    then show ?thesis using k by simp
  next
    case False
    then obtain k :: nat where u: "u = 1 / 2 ^ 52 / 2 ^ k" and kk: "int k \<le> 0 + 1022"
      and alt: "1 \<le> \<bar>x\<bar> * 2 ^ k \<or> int k = 0 + 1022"
      using assms expo_down_inv [of "\<bar>x\<bar>" 0 "1 / 2 ^ 52" e u] by (auto simp: binade_def)
    show ?thesis
    proof (cases "1 \<le> \<bar>x\<bar> * 2 ^ k")
      case True
      then have "1 / 2 ^ k \<le> \<bar>x\<bar>" by (simp add: field_simps)
      moreover have "u \<le> 1 / 2 ^ k" unfolding u by (simp add: field_simps)
      ultimately show ?thesis by simp
    next
      case False
      then have "k = 1022" using alt by simp
      then have "u = 2 ^ (1022 - 1022) * min_value"
        unfolding min_value_def u using unit_down [of 1022 1022 1074 52] by simp
      then show ?thesis using assms(2) by simp
    qed
  qed
  then show ?thesis using pos by simp
qed

lemma fl_pos:
  assumes "min_value \<le> x"
  shows "fl x = PInf \<or> (\<exists>r. fl x = Fin r \<and> 0 < r)"
proof -
  have x: "0 < x" using assms min_value_pos by simp
  obtain e u where b: "binade x = (e, u)" by (cases "binade x")
  have u: "0 < u \<and> u \<le> \<bar>x\<bar>" using binade_le [OF b] assms x by simp
  then have "1 \<le> x / u" using x by (simp add: field_simps)
  then have "1 \<le> rne (x / u)" by (rule rne_ge_1)
  then have "0 < real_of_int (rne (x / u)) * u" using u by simp
  then show ?thesis using x b by (auto simp: fl_def Let_def)
qed

lemma fl_neg:
  assumes "x \<le> - min_value"
  shows "fl x = NInf \<or> (\<exists>r. fl x = Fin r \<and> r < 0)"
proof -
  have x: "x < 0" using assms min_value_pos by simp
  obtain e u where b: "binade x = (e, u)" by (cases "binade x")
  have u: "0 < u \<and> u \<le> \<bar>x\<bar>" using binade_le [OF b] assms x by simp
  then have "x / u \<le> - 1" using x by (simp add: field_simps)
  then have "rne (x / u) \<le> - 1" by (rule rne_le_m1)
  then have "real_of_int (rne (x / u)) \<le> - 1" by linarith
  then have "real_of_int (rne (x / u)) * u < 0" using u by (simp add: mult_neg_pos)
  then show ?thesis using x b by (auto simp: fl_def Let_def)
qed

text \<open>A binary64 value is a whole multiple of the least positive one.\<close>

lemma representable_multiple:
  assumes "representable r"
  shows "\<exists>m::int. r = of_int m * min_value"
proof (cases "r = 0")
  case True
  then show ?thesis by (intro exI [of _ 0]) simp
next
  case False
  obtain e u where b: "binade r = (e, u)" by (cases "binade r")
  obtain j :: nat where j: "u = 2 ^ j * min_value" using binade_unit [OF b] by blast
  have "r = of_int (rne (r / u)) * u"
    using assms False b by (auto simp: representable_def fl_def Let_def split: if_splits)
  then have "r = of_int (rne (r / u) * 2 ^ j) * min_value" unfolding j by simp
  then show ?thesis by blast
qed

lemma representable_gap:
  assumes "representable a" and "representable b" and "a < b"
  shows "min_value \<le> b - a"
proof -
  obtain m n :: int where m: "a = of_int m * min_value" and n: "b = of_int n * min_value"
    using assms representable_multiple by blast
  have "m < n" using assms(3) min_value_pos unfolding m n by (simp add: mult_less_cancel_right)
  then have "1 \<le> real_of_int (n - m)" by linarith
  then have "1 * min_value \<le> real_of_int (n - m) * min_value"
    using min_value_pos by (intro mult_right_mono) auto
  then show ?thesis unfolding m n by (simp add: algebra_simps)
qed

text \<open>The comparator \<^verbatim>\<open>a - b\<close> is positive exactly when \<open>b < a\<close>.\<close>

lemma cmp_sub_gt:
  assumes "is_numeric x" and "is_numeric y"
  shows "jgt (jsub x y) (Fin 0) = jlt y x"
proof (cases x; cases y)
  fix a b
  assume xy: "x = Fin a" "y = Fin b"
  then have r: "representable a" "representable b" using assms by simp_all
  consider "b < a" | "a = b" | "a < b" by linarith
  then show ?thesis
  proof cases
    case 1
    then have "min_value \<le> a + - b" using representable_gap [OF r(2) r(1)] by simp
    then show ?thesis using fl_pos [of "a + - b"] 1 xy by (auto simp: jgt_def jsub_def)
  next
    case 2
    then show ?thesis using xy by (simp add: jgt_def jsub_def fl_def)
  next
    case 3
    then have "a + - b \<le> - min_value" using representable_gap [OF r(1) r(2)] by simp
    then show ?thesis using fl_neg [of "a + - b"] 3 xy by (auto simp: jgt_def jsub_def)
  qed
qed (use assms in \<open>simp_all add: jgt_def jsub_def\<close>)

lemma expo_up_top:
  "e \<le> 1024 \<Longrightarrow> 2 ^ nat (1024 - e) \<le> x \<Longrightarrow> fst (expo_up x e u) = 1024"
proof (induction x e u rule: expo_up.induct)
  case (1 x e u)
  show ?case
  proof (cases "x < 2 \<or> 1024 \<le> e")
    case True
    have "e = 1024"
    proof (rule ccontr)
      assume "e \<noteq> 1024"
      then have "e < 1024" and "x < 2" using True "1.prems" by auto
      then obtain k where k: "nat (1024 - e) = Suc k" by (cases "nat (1024 - e)") auto
      have "(2::real) \<le> 2 ^ Suc k" by (simp add: one_le_power)
      then show False using "1.prems"(2) \<open>x < 2\<close> unfolding k by linarith
    qed
    then show ?thesis by (simp add: expo_up_stop)
  next
    case False
    then obtain k where k: "nat (1024 - e) = Suc k" by (cases "nat (1024 - e)") auto
    then have k': "nat (1024 - (e + 1)) = k" by linarith
    have "2 ^ k \<le> x / 2" using "1.prems"(2) unfolding k by simp
    then have "fst (expo_up (x / 2) (e + 1) (u * 2)) = 1024"
      using "1.IH" [OF False] False k' by simp
    then show ?thesis using False by (simp add: expo_up_step)
  qed
qed


text \<open>From \<open>2\<^sup>1\<^sup>0\<^sup>2\<^sup>4\<close> on a magnitude overflows.\<close>

lemma fl_overflow: "2 ^ 1024 \<le> \<bar>x\<bar> \<Longrightarrow> fl x = (if 0 < x then PInf else NInf)"
proof -
  assume a: "2 ^ 1024 \<le> \<bar>x\<bar>"
  have "(1::real) \<le> 2 ^ 1024" by (rule one_le_power) simp
  then have one: "1 \<le> \<bar>x\<bar>" using a by linarith
  have "fst (expo_up \<bar>x\<bar> 0 (1 / 2 ^ 52)) = 1024"
    using a by (intro expo_up_top) simp_all
  then have "fst (binade x) = 1024" using one by (simp add: binade_def)
  moreover have "x \<noteq> 0" using one by auto
  ultimately show ?thesis by (auto simp: fl_def Let_def split: prod.splits)
qed

lemma scaled_lt_one:
  assumes "x * 2 ^ k < 1" and "0 \<le> x"
  shows "x < (1::real)"
proof (rule ccontr)
  assume "\<not> x < 1"
  then have "1 \<le> x" by simp
  moreover have "(1::real) \<le> 2 ^ k" by (rule one_le_power) simp
  ultimately have "1 * 1 \<le> x * 2 ^ k" by (intro mult_mono) auto
  then show False using assms(1) by simp
qed

lemma half_unit_scaled:
  assumes "x < 1 / 2 ^ c / 2 ^ b / 2" and "0 \<le> x"
  shows "x * 2 ^ b < (1::real)"
proof -
  have "x * 2 ^ b < 1 / 2 ^ c / 2" using assms(1) by (simp add: field_simps)
  moreover have "(1::real) \<le> 2 ^ c" by (rule one_le_power) simp
  then have "(1::real) * 1 \<le> 2 * 2 ^ c" by (intro mult_mono) auto
  then have "(1::real) / 2 ^ c / 2 \<le> 1" by (simp add: field_simps)
  ultimately show ?thesis by linarith
qed

lemma expo_down_bottom:
  "- 1022 \<le> e \<Longrightarrow> 0 \<le> x \<Longrightarrow> x * 2 ^ nat (e + 1022) < 1 \<Longrightarrow>
     expo_down x e u = (- 1022, u / 2 ^ nat (e + 1022))"
proof (induction x e u rule: expo_down.induct)
  case (1 x e u)
  show ?case
  proof (cases "e \<le> - 1022")
    case True
    then have "e = - 1022" using "1.prems" by simp
    then show ?thesis by (simp add: expo_down_stop)
  next
    case False
    then obtain k where k: "nat (e + 1022) = Suc k" by (cases "nat (e + 1022)") auto
    then have k': "nat (e - 1 + 1022) = k" by linarith
    have x: "x * 2 * 2 ^ k < 1" using "1.prems"(3) unfolding k by (simp add: mult.assoc)
    have "x < 1" using "1.prems"(2,3) by (rule scaled_lt_one [rotated])
    then have step: "\<not> (1 \<le> x \<or> e \<le> - 1022)" using False by simp
    have "expo_down (x * 2) (e - 1) (u / 2) = (- 1022, u / 2 / 2 ^ k)"
      using "1.IH" [OF step] False x k' "1.prems"(2) by simp
    then show ?thesis using step unfolding k by (simp add: expo_down_step)
  qed
qed

lemma rne_small: "\<bar>t\<bar> < 1 / 2 \<Longrightarrow> rne t = 0"
  by (auto simp: rne_def Let_def abs_if split: if_splits; linarith)

text \<open>Below half the least positive value a magnitude underflows to zero.\<close>

lemma fl_underflow:
  assumes "\<bar>x\<bar> < min_value / 2"
  shows "fl x = Fin 0"
proof (cases "x = 0")
  case True
  then show ?thesis by (simp add: fl_def)
next
  case False
  have m: "min_value = 1 / 2 ^ 52 / 2 ^ 1022"
    unfolding min_value_def using unit_down [of 1022 1022 1074 52] by simp
  have small: "\<bar>x\<bar> * 2 ^ 1022 < 1"
    using assms unfolding m by (intro half_unit_scaled [of _ 52]) auto
  then have lt1: "\<bar>x\<bar> < 1" by (rule scaled_lt_one) simp
  have n: "nat (0 + 1022) = 1022" by simp
  have "expo_down \<bar>x\<bar> 0 (1 / 2 ^ 52) = (- 1022, 1 / 2 ^ 52 / 2 ^ nat (0 + 1022))"
  proof (rule expo_down_bottom)
    show "- 1022 \<le> (0::int)" by simp
    show "0 \<le> \<bar>x\<bar>" by simp
    show "\<bar>x\<bar> * 2 ^ nat (0 + 1022) < 1" unfolding n by (rule small)
  qed
  then have b: "binade x = (- 1022, min_value)"
    using lt1 unfolding n m by (simp add: binade_def)
  have "\<bar>x / min_value\<bar> < 1 / 2"
    using assms min_value_pos by (simp add: field_simps abs_mult)
  then have "rne (x / min_value) = 0" by (rule rne_small)
  then show ?thesis using False b by (simp add: fl_def)
qed

subsection \<open>Correlation\<close>

text \<open>The guards of \<^verbatim>\<open>calculateCorrelation\<close>: each of them returns \<open>0\<close>.\<close>

lemma calculateCorrelation_guards:
  "length x \<noteq> length y \<or> x = [] \<or> corr_denominator x y = Fin 0
     \<Longrightarrow> calculateCorrelation x y = Fin 0"
  by (auto simp: calculateCorrelation_def)

lemma jdiv_NaN: "jdiv a NaN = NaN"
  by (cases a) simp_all

text \<open>
  The binary64 value of \<^verbatim>\<open>0.3\<close>, and the radicand of the denominator for six times
  \<^verbatim>\<open>0.3\<close> against \<open>1, \<dots>, 6\<close>: the rounded \<^verbatim>\<open>n * sumX2\<close> is below the rounded
  \<^verbatim>\<open>sumX ** 2\<close>, so the radicand is negative although the series is constant.
\<close>

lemma fl_three_tenths: "fl (3 / 10) = Fin (5404319552844595 / 18014398509481984)"
  by (simp add: fl_eval)

lemma corr_radicand_constant_negative:
  "\<exists>r. r < 0 \<and>
       corr_radicand (replicate 6 (fl (3 / 10))) (map Fin [1, 2, 3, 4, 5, 6]) = Fin r"
  by (simp add: corr_radicand_def sum_reduce_def sumSq_of_def jsub_def fl_eval eval_nat_numeral)

text \<open>
  Claim C3 at the series \<^verbatim>\<open>[0.3, 0.3, 0.3, 0.3, 0.3, 0.3]\<close> and
  \<^verbatim>\<open>[1, 2, 3, 4, 5, 6]\<close>: the first series is constant and both are finite, yet the
  rounded radicand is negative, its square root is NaN, the test
  \<^verbatim>\<open>denominator === 0\<close> is false for NaN and \<^verbatim>\<open>calculateCorrelation\<close> returns NaN.
\<close>

theorem calculateCorrelation_constant_NaN:
  "calculateCorrelation (replicate 6 (fl (3 / 10))) (map Fin [1, 2, 3, 4, 5, 6]) = NaN"
proof -
  obtain r where "r < 0"
    and "corr_radicand (replicate 6 (fl (3 / 10))) (map Fin [1, 2, 3, 4, 5, 6]) = Fin r"
    using corr_radicand_constant_negative by blast
  then have "corr_denominator (replicate 6 (fl (3 / 10))) (map Fin [1, 2, 3, 4, 5, 6]) = NaN"
    by (simp add: corr_denominator_def)
  then show ?thesis by (simp add: calculateCorrelation_def jdiv_NaN)
qed

theorem calculateCorrelation_constant_NaN_witness:
  "isNaN (calculateCorrelation (replicate 6 (fl (3 / 10))) (map Fin [1, 2, 3, 4, 5, 6])) \<and>
   calculateCorrelation (replicate 6 (fl (3 / 10))) (map Fin [1, 2, 3, 4, 5, 6]) \<noteq> Fin 0"
  using calculateCorrelation_constant_NaN by (simp add: isNaN_def)

text \<open>
  A series that holds an infinity (the raw series of a numeric column with a cell
  \<^verbatim>\<open>"Infinity"\<close>, see \<open>rawData_with_infinity\<close> below) also gives NaN: numerator and
  denominator are both NaN.
\<close>

lemma calculateCorrelation_infinity:
  "isNaN (calculateCorrelation [PInf, Fin 1] [Fin 1, Fin 2])"
  by (simp add: isNaN_def calculateCorrelation_def corr_denominator_def corr_radicand_def
      corr_numerator_def sum_reduce_def sumSq_of_def sumXY_of_def jsub_def inf_of_sign_def
      fl_eval)

text \<open>
  Claim C8 at the series \<^verbatim>\<open>[100000000, 100000001]\<close>, which is not constant and whose
  elements are binary64 values: \<^verbatim>\<open>100000001 * 100000001\<close> and
  \<^verbatim>\<open>200000001 ** 2\<close> are beyond \<open>2\<^sup>5\<^sup>3\<close> and lose their last unit, the rounded
  \<^verbatim>\<open>n * sumX2\<close> and \<^verbatim>\<open>sumX ** 2\<close> are both \<open>40000000400000000\<close>, the denominator
  is \<open>0\<close> and the correlation of the series with itself is \<open>0\<close>, not \<open>1\<close>.
\<close>

theorem calculateCorrelation_self_zero:
  "calculateCorrelation [Fin 100000000, Fin 100000001] [Fin 100000000, Fin 100000001] = Fin 0"
  by (simp add: calculateCorrelation_def corr_denominator_def corr_radicand_def sum_reduce_def
      sumSq_of_def jsub_def fl_eval)

theorem calculateCorrelation_self_zero_witness:
  "Fin 100000000 \<noteq> Fin 100000001 \<and>
   calculateCorrelation [Fin 100000000, Fin 100000001] [Fin 100000000, Fin 100000001] \<noteq> Fin 1"
  using calculateCorrelation_self_zero by simp

text \<open>The two elements are binary64 values, and the series with an infinity gives NaN.\<close>

lemma calculateCorrelation_self_inputs:
  "is_numeric (Fin 100000000) \<and> is_numeric (Fin 100000001) \<and>
   isNaN (calculateCorrelation [PInf, Fin 1] [PInf, Fin 1])"
  by (simp add: isNaN_def representable_def calculateCorrelation_def corr_denominator_def
      corr_radicand_def corr_numerator_def sum_reduce_def sumSq_of_def sumXY_of_def jsub_def
      inf_of_sign_def fl_eval)

text \<open>
  Claim C10. Every diagonal cell of the correlation matrix is the constant \<open>1\<close>, whatever
  the raw series of the KPI is: the correlation function is not consulted there.
\<close>

theorem correlation_matrix_diagonal:
  "i < length numericKPIs \<Longrightarrow> snd (correlation_matrix numericKPIs) ! i ! i = Fin 1"
  by (simp add: correlation_matrix_def)

theorem correlation_matrix_diagonal_witness:
  "(1::nat) < length [\<lparr>column = ''a'', rawData = [Fin 5, Fin 5], min_kpi = Fin 5,
        max_kpi = Fin 5, avg = Fin 5, median = Fin 5, stdDev = Fin 0\<rparr>,
      \<lparr>column = ''b'', rawData = [], min_kpi = PInf,
        max_kpi = NInf, avg = NaN, median = Fin 0, stdDev = Fin 0\<rparr>] \<and>
   snd (correlation_matrix [\<lparr>column = ''a'', rawData = [Fin 5, Fin 5], min_kpi = Fin 5,
        max_kpi = Fin 5, avg = Fin 5, median = Fin 5, stdDev = Fin 0\<rparr>,
      \<lparr>column = ''b'', rawData = [], min_kpi = PInf,
        max_kpi = NInf, avg = NaN, median = Fin 0, stdDev = Fin 0\<rparr>]) ! 1 ! 1 = Fin 1"
  using correlation_matrix_diagonal [of 1 "[\<lparr>column = ''a'', rawData = [Fin 5, Fin 5],
        min_kpi = Fin 5, max_kpi = Fin 5, avg = Fin 5, median = Fin 5, stdDev = Fin 0\<rparr>,
      \<lparr>column = ''b'', rawData = [], min_kpi = PInf,
        max_kpi = NInf, avg = NaN, median = Fin 0, stdDev = Fin 0\<rparr>]"]
  by simp

text \<open>
  Off the diagonal the function is consulted; on an empty series, and on the constant
  series \<open>[5, 5]\<close>, it gives \<open>0\<close> for the series with itself.
\<close>

lemma calculateCorrelation_empty_constant:
  "calculateCorrelation [] [] = Fin 0 \<and>
   calculateCorrelation [Fin 5, Fin 5] [Fin 5, Fin 5] = Fin 0"
  by (simp add: calculateCorrelation_def corr_denominator_def corr_radicand_def sum_reduce_def
      sumSq_of_def jsub_def fl_eval)

subsection \<open>Trend\<close>

text \<open>
  Claim C2 at the series \<^verbatim>\<open>[5]\<close>. The guard \<^verbatim>\<open>n < 2\<close> returns the forecast \<open>0\<close>,
  not the last value \<open>5\<close> that the guard on the denominator returns, and it stores
  \<^verbatim>\<open>'stable'\<close> under the key \<^verbatim>\<open>trend\<close>; the regular return and
  \<^verbatim>\<open>generateInsights\<close> use the key \<^verbatim>\<open>trendDirection\<close>, which the object does not
  have, so that \<^verbatim>\<open>generateInsights\<close> reports a trend with the direction
  \<^verbatim>\<open>undefined\<close> for a series of one value.
\<close>

theorem calculateTrend_single_value:
  "calculateTrend [Fin 5] =
     \<lparr>slope = Fin 0, intercept = None, nextVal = Fin 0,
      trend = Some ''stable'', trendDirection = None\<rparr> \<and>
   nextVal (calculateTrend [Fin 5]) \<noteq> last [Fin 5] \<and>
   map type_ins (insights (generateInsights toFixed2 colName [Fin 5]))
     = [''trend'', ''prediction''] \<and>
   text_ins (hd (insights (generateInsights toFixed2 colName [Fin 5])))
     = colName @ '' shows a statistically significant undefined trend.''"
  by (simp add: calculateTrend_def generateInsights_def detectAnomalies_def)

text \<open>
  The regular return on \<open>[1, 2, 3]\<close>: slope \<open>1\<close>, intercept \<open>1\<close>, forecast \<open>4\<close>,
  \<^verbatim>\<open>trendDirection\<close> increasing. On the empty series the forecast is \<open>0\<close>.
\<close>

lemma calculateTrend_regular:
  "calculateTrend [Fin 1, Fin 2, Fin 3] =
     \<lparr>slope = Fin 1, intercept = Some (Fin 1), nextVal = Fin 4,
      trend = None, trendDirection = Some ''increasing''\<rparr>"
  by (simp add: calculateTrend_def trend_denominator_def trend_xs_def sum_reduce_def sumSq_of_def
      sumXY_of_def jsub_def jgt_def fl_eval upt_rec)

lemma calculateTrend_short:
  "length values < 2 \<Longrightarrow>
     slope (calculateTrend values) = Fin 0 \<and> nextVal (calculateTrend values) = Fin 0 \<and>
     trend (calculateTrend values) = Some ''stable'' \<and>
     trendDirection (calculateTrend values) = None"
  by (simp add: calculateTrend_def)

subsection \<open>Anomalies\<close>

text \<open>\<^verbatim>\<open>a <= b\<close> on numbers that are not NaN.\<close>

definition jle :: "jsnum \<Rightarrow> jsnum \<Rightarrow> bool" where
  "jle a b = (a = b \<or> jlt a b)"

lemma is_numeric_not_NaN: "is_numeric x \<Longrightarrow> x \<noteq> NaN"
  by (cases x) simp_all

lemma jle_total: "x \<noteq> NaN \<Longrightarrow> y \<noteq> NaN \<Longrightarrow> \<not> jlt y x \<Longrightarrow> jle x y"
  by (cases x; cases y) (auto simp: jle_def)

lemma jlt_jle: "jlt y x \<Longrightarrow> jle y x"
  by (simp add: jle_def)

lemma jle_trans: "jle x y \<Longrightarrow> jle y z \<Longrightarrow> jle x z"
  by (cases x; cases y; cases z) (auto simp: jle_def)

lemma set_insert_by: "set (insert_by cmp x ys) = insert x (set ys)"
  by (induction ys) auto

lemma mset_insert_by: "mset (insert_by cmp x ys) = add_mset x (mset ys)"
  by (induction ys) auto

lemma mset_sort_by: "mset (sort_by cmp xs) = mset xs"
  by (induction xs) (simp_all add: sort_by_def mset_insert_by)

lemma length_sort_by: "length (sort_by cmp xs) = length xs"
  using mset_sort_by [of cmp xs] by (metis size_mset)

lemma set_sort_by: "set (sort_by cmp xs) = set xs"
  using mset_sort_by [of cmp xs] by (metis set_mset_mset)

lemma sorted_insert_by:
  assumes "is_numeric x" "\<forall>y\<in>set ys. is_numeric y" "sorted_wrt jle ys"
  shows "sorted_wrt jle (insert_by (\<lambda>a b. jsub a b) x ys)"
  using assms
proof (induction ys)
  case Nil
  then show ?case by simp
next
  case (Cons y ys)
  have g: "jgt (jsub x y) (Fin 0) = jlt y x"
    using Cons.prems by (intro cmp_sub_gt) auto
  show ?case
  proof (cases "jlt y x")
    case True
    have "\<forall>z\<in>set (insert_by (\<lambda>a b. jsub a b) x ys). jle y z"
      using Cons.prems True by (auto simp: set_insert_by jlt_jle)
    then show ?thesis using Cons True g by simp
  next
    case False
    then have xy: "jle x y" using Cons.prems by (auto intro: jle_total is_numeric_not_NaN)
    then have "\<forall>z\<in>set ys. jle x z" using Cons.prems by (auto intro: jle_trans)
    then show ?thesis using Cons.prems False xy g by simp
  qed
qed

lemma sorted_sort_by:
  "\<forall>v\<in>set xs. is_numeric v \<Longrightarrow> sorted_wrt jle (sort_by (\<lambda>a b. jsub a b) xs)"
proof (induction xs)
  case Nil
  then show ?case by (simp add: sort_by_def)
next
  case (Cons x xs)
  have "\<forall>v\<in>set (sort_by (\<lambda>a b. jsub a b) xs). is_numeric v"
    using Cons.prems by (simp add: set_sort_by)
  then have "sorted_wrt jle (insert_by (\<lambda>a b. jsub a b) x (sort_by (\<lambda>a b. jsub a b) xs))"
    using Cons by (intro sorted_insert_by) auto
  then show ?case by (simp add: sort_by_def)
qed

lemma floor_quarter: "nat \<lfloor>real n / 4\<rfloor> = n div 4"
proof -
  have "\<lfloor>real n / real (4::nat)\<rfloor> = int (n div 4)" by (rule floor_divide_of_nat_eq)
  then show ?thesis by simp
qed

lemma floor_three_quarters: "nat \<lfloor>real n * 3 / 4\<rfloor> = 3 * n div 4"
proof -
  have e: "real n * 3 / 4 = real (3 * n) / real (4::nat)" by simp
  show ?thesis unfolding e floor_divide_of_nat_eq by simp
qed

text \<open>
  Claim C5. Below four values \<^verbatim>\<open>detectAnomalies\<close> returns the empty list. From four
  values on, for binary64 numbers none of which is NaN: the comparator sort yields the
  ascending rearrangement \<open>s\<close> of the values, \<open>Q1\<close> and \<open>Q3\<close> are \<open>s\<close> at the indices
  \<open>n div 4\<close> and \<open>3n div 4\<close>, and the result is the input values, in input order, that
  are strictly below \<open>Q1 - 1.5 (Q3 - Q1)\<close> or strictly above \<open>Q3 + 1.5 (Q3 - Q1)\<close>, the
  two bounds being computed in binary64 as the code computes them (\<open>jsub\<close>, \<open>jmul\<close> and
  \<open>jadd\<close> round). On \<open>[1, 2, 3, 4, 5, 100]\<close> exactly \<open>100\<close> is returned.
\<close>

theorem detectAnomalies_iqr:
  "(length values < 4 \<longrightarrow> detectAnomalies values = []) \<and>
   (4 \<le> length values \<and> (\<forall>v\<in>set values. is_numeric v) \<longrightarrow>
      (let s = sort_by (\<lambda>a b. jsub a b) values;
           q1 = s ! (length values div 4);
           q3 = s ! (3 * length values div 4)
       in mset s = mset values \<and> sorted_wrt jle s \<and>
          detectAnomalies values =
            filter (\<lambda>v. jlt v (jsub q1 (jmul (Fin (3 / 2)) (jsub q3 q1)))
                       \<or> jgt v (jadd q3 (jmul (Fin (3 / 2)) (jsub q3 q1)))) values)) \<and>
   detectAnomalies (map Fin [1, 2, 3, 4, 5, 100]) = [Fin 100]"
proof (intro conjI impI)
  show "length values < 4 \<Longrightarrow> detectAnomalies values = []"
    by (simp add: detectAnomalies_def)
next
  assume a: "4 \<le> length values \<and> (\<forall>v\<in>set values. is_numeric v)"
  then have "\<not> length values < 4" by simp
  then have "detectAnomalies values =
      (let s = sort_by (\<lambda>a b. jsub a b) values;
           q1 = s ! (length values div 4);
           q3 = s ! (3 * length values div 4)
       in filter (\<lambda>v. jlt v (jsub q1 (jmul (Fin (3 / 2)) (jsub q3 q1)))
                       \<or> jgt v (jadd q3 (jmul (Fin (3 / 2)) (jsub q3 q1)))) values)"
    by (simp add: detectAnomalies_def Let_def length_sort_by floor_quarter floor_three_quarters)
  then show "let s = sort_by (\<lambda>a b. jsub a b) values;
           q1 = s ! (length values div 4);
           q3 = s ! (3 * length values div 4)
       in mset s = mset values \<and> sorted_wrt jle s \<and>
          detectAnomalies values =
            filter (\<lambda>v. jlt v (jsub q1 (jmul (Fin (3 / 2)) (jsub q3 q1)))
                       \<or> jgt v (jadd q3 (jmul (Fin (3 / 2)) (jsub q3 q1)))) values"
    using a by (simp add: Let_def mset_sort_by sorted_sort_by)
next
  show "detectAnomalies (map Fin [1, 2, 3, 4, 5, 100]) = [Fin 100]"
    by (simp add: detectAnomalies_def sort_by_def jsub_def jgt_def fl_eval)
qed

theorem detectAnomalies_iqr_witness:
  "4 \<le> length [Fin 10, Fin 1, Fin 2, Fin 3, Fin 4, NInf] \<and>
   list_all is_numeric [Fin 10, Fin 1, Fin 2, Fin 3, Fin 4, NInf] \<and>
   sort_by (\<lambda>a b. jsub a b) [Fin 10, Fin 1, Fin 2, Fin 3, Fin 4, NInf]
     = [NInf, Fin 1, Fin 2, Fin 3, Fin 4, Fin 10] \<and>
   detectAnomalies [Fin 10, Fin 1, Fin 2, Fin 3, Fin 4, NInf] = [Fin 10, NInf] \<and>
   length [Fin 7, Fin 8] < (4::nat) \<and> detectAnomalies [Fin 7, Fin 8] = []"
  using detectAnomalies_iqr [of "[Fin 10, Fin 1, Fin 2, Fin 3, Fin 4, NInf]"]
        detectAnomalies_iqr [of "[Fin 7, Fin 8]"]
  by (simp add: representable_def sort_by_def jsub_def jgt_def fl_eval)

text \<open>
  The bounds are the rounded ones. On \<^verbatim>\<open>[0.1, 0.1, 0.1, 1.3, 3.1]\<close> the quartiles are
  \<^verbatim>\<open>0.1\<close> and \<^verbatim>\<open>1.3\<close> and the upper bound comes out as
  \<^verbatim>\<open>3.0999999999999996\<close>, one unit in the last place below \<^verbatim>\<open>3.1\<close>, which is
  therefore returned.
\<close>

lemma detectAnomalies_rounded_bound:
  "detectAnomalies [fl (1 / 10), fl (1 / 10), fl (1 / 10), fl (13 / 10), fl (31 / 10)]
     = [fl (31 / 10)]"
  by (simp add: detectAnomalies_def sort_by_def jsub_def jgt_def fl_eval)

section \<open>Datasets\<close>

text \<open>
  A cell is what the parsed sheet holds under a column name: a number, a string or
  \<^verbatim>\<open>null\<close>; reading a name that the row does not have gives \<^verbatim>\<open>undefined\<close>.
  Numbers in cells are finite binary64 values. A row is the list of its properties in
  enumeration order (the order of \<^verbatim>\<open>Object.keys\<close>); strings are sequences of 8-bit
  characters. Objects that the code uses as dictionaries are finite maps or association
  lists. Column names and pivot keys are taken not to be names that every object inherits
  (\<^verbatim>\<open>constructor\<close>, \<^verbatim>\<open>toString\<close>, ...); for the values of a categorical column,
  which are data, the inherited names are modelled (see \<open>bump\<close>).
\<close>

datatype cell = Undefined | Null | Num real | Str string

type_synonym row = "(string \<times> cell) list"

definition get :: "row \<Rightarrow> string \<Rightarrow> cell" where
  "get r k = (case map_of r k of None \<Rightarrow> Undefined | Some v \<Rightarrow> v)"

text \<open>\<^verbatim>\<open>val === undefined || val === null || val === ""\<close>\<close>

definition is_missing :: "cell \<Rightarrow> bool" where
  "is_missing v = (v = Undefined \<or> v = Null \<or> v = Str [])"

text \<open>Truthiness, as \<^verbatim>\<open>v || d\<close> tests it.\<close>

fun truthy :: "cell \<Rightarrow> bool" where
  "truthy Undefined = False"
| "truthy Null = False"
| "truthy (Num r) = (r \<noteq> 0)"
| "truthy (Str s) = (s \<noteq> [])"

text \<open>\<^verbatim>\<open>typeof v === "number"\<close>\<close>

fun is_number :: "cell \<Rightarrow> bool" where
  "is_number (Num r) = True"
| "is_number _ = False"

text \<open>
  The conversion of a value to a string, as property keys and the default sort use it.
  The decimal text of a number (\<^verbatim>\<open>Number::toString\<close>) belongs to the host and is the
  parameter \<open>nts\<close> of everything that prints a number.
\<close>

fun to_str :: "(real \<Rightarrow> string) \<Rightarrow> cell \<Rightarrow> string" where
  "to_str nts Undefined = ''undefined''"
| "to_str nts Null = ''null''"
| "to_str nts (Num r) = nts r"
| "to_str nts (Str s) = s"

text \<open>
  For concrete examples: the decimal text of an integer, which is what
  \<^verbatim>\<open>Number::toString\<close> gives on the integers below \<open>10\<^sup>2\<^sup>1\<close> in magnitude.
\<close>

definition toString_int :: "real \<Rightarrow> string" where
  "toString_int r = (if r < 0 then ''-'' else []) @ show_nat (nat \<lfloor>\<bar>r\<bar>\<rfloor>)"

text \<open>Strings compare by code units, a proper prefix before its extensions.\<close>

fun str_less :: "string \<Rightarrow> string \<Rightarrow> bool" where
  "str_less [] [] = False"
| "str_less [] (b # bs) = True"
| "str_less (a # as) [] = False"
| "str_less (a # as) (b # bs) =
     (if (of_char a :: nat) < of_char b then True
      else if (of_char b :: nat) < of_char a then False
      else str_less as bs)"

text \<open>The comparator of \<^verbatim>\<open>sort()\<close> without an argument: by the elements' strings.\<close>

definition default_compare :: "(real \<Rightarrow> string) \<Rightarrow> cell \<Rightarrow> cell \<Rightarrow> jsnum" where
  "default_compare nts a b =
     (if str_less (to_str nts a) (to_str nts b) then Fin (- 1)
      else if str_less (to_str nts b) (to_str nts a) then Fin 1
      else Fin 0)"

text \<open>\<^verbatim>\<open>Set.prototype.add\<close>; a \<^verbatim>\<open>Set\<close> iterates in insertion order.\<close>

definition set_add :: "'a \<Rightarrow> 'a list \<Rightarrow> 'a list" where
  "set_add x s = (if x \<in> set s then s else s @ [x])"

text \<open>
  \<^verbatim>\<open>parseFloat(result.toFixed(2))\<close>: the magnitude is rounded to the nearest
  hundredth, a tie to the larger one; from \<open>10\<^sup>2\<^sup>1\<close> on \<^verbatim>\<open>toFixed\<close> prints the number
  itself.
\<close>

definition round2 :: "real \<Rightarrow> real" where
  "round2 x = (if 10 ^ 21 \<le> \<bar>x\<bar> then x else sgn x * of_int \<lfloor>\<bar>x\<bar> * 100 + 1 / 2\<rfloor> / 100)"

text \<open>
  \<^verbatim>\<open>parseFloat(x.toFixed(2))\<close> on any number: \<^verbatim>\<open>toFixed\<close> rounds the exact value
  of the number and prints it, \<^verbatim>\<open>parseFloat\<close> reads the decimal text back as the
  nearest binary64 value; an infinity and NaN print as their names and are read back.
\<close>

fun jround2 :: "jsnum \<Rightarrow> jsnum" where
  "jround2 (Fin x) = fl (round2 x)"
| "jround2 a = a"

fun jmin :: "jsnum \<Rightarrow> jsnum \<Rightarrow> jsnum" where
  "jmin NaN _ = NaN"
| "jmin _ NaN = NaN"
| "jmin a b = (if jlt b a then b else a)"

fun jmax :: "jsnum \<Rightarrow> jsnum \<Rightarrow> jsnum" where
  "jmax NaN _ = NaN"
| "jmax _ NaN = NaN"
| "jmax a b = (if jlt a b then b else a)"

text \<open>\<^verbatim>\<open>Math.min(...values)\<close> and \<^verbatim>\<open>Math.max(...values)\<close>\<close>

definition math_min :: "jsnum list \<Rightarrow> jsnum" where
  "math_min values = foldl jmin PInf values"

definition math_max :: "jsnum list \<Rightarrow> jsnum" where
  "math_max values = foldl jmax NInf values"

section \<open>The pivot engine\<close>

record pivot_acc =
  rowSet :: "cell list"
  colSet :: "cell list"
  valuesMap :: "string \<rightharpoonup> (string \<rightharpoonup> cell list)"

record pivot_result =
  rowKeys :: "cell list"
  colKeys :: "cell list"
  grid :: "string \<rightharpoonup> (string \<rightharpoonup> jsnum)"

text \<open>
  What both variants do with a row once its two keys are resolved: record the keys,
  create the bucket, and push the value read under \<open>valDim\<close> when the function is
  \<^verbatim>\<open>Count\<close> or the value is a number.
\<close>

definition accumulate ::
  "(real \<Rightarrow> string) \<Rightarrow> string \<Rightarrow> string \<Rightarrow> cell \<Rightarrow> cell \<Rightarrow> row \<Rightarrow> pivot_acc \<Rightarrow> pivot_acc" where
  "accumulate nts valDim func rKey cKey r acc =
     (let rk = to_str nts rKey;
          ck = to_str nts cKey;
          inner = (case valuesMap acc rk of None \<Rightarrow> Map.empty | Some m \<Rightarrow> m);
          bucket = (case inner ck of None \<Rightarrow> [] | Some b \<Rightarrow> b);
          val = get r valDim;
          bucket' = (if func = ''Count'' \<or> is_number val then bucket @ [val] else bucket)
      in \<lparr>rowSet = set_add rKey (rowSet acc),
          colSet = set_add cKey (colSet acc),
          valuesMap = (valuesMap acc)(rk \<mapsto> inner(ck \<mapsto> bucket'))\<rparr>)"

text \<open>
  The body of \<^verbatim>\<open>data.forEach\<close> in \<^verbatim>\<open>MathEngine.performPivot\<close> (first variant):
  each \<^verbatim>\<open>return\<close> leaves the three accumulators as they were.
\<close>

definition MathEngine_pivot_row ::
  "(real \<Rightarrow> string) \<Rightarrow> string \<Rightarrow> string \<Rightarrow> string \<Rightarrow> string \<Rightarrow> pivot_acc \<Rightarrow> row \<Rightarrow> pivot_acc" where
  "MathEngine_pivot_row nts rowDim colDim valDim func acc r =
     (if rowDim \<noteq> ''None'' \<and> is_missing (get r rowDim) then acc
      else
        let rKey = (if rowDim \<noteq> ''None'' then get r rowDim else Str ''Total'') in
        if colDim \<noteq> ''None'' \<and> is_missing (get r colDim) then acc
        else
          let cKey = (if colDim \<noteq> ''None'' then get r colDim else Str ''Total'')
          in accumulate nts valDim func rKey cKey r acc)"

text \<open>
  The body of \<^verbatim>\<open>data.forEach\<close> in \<^verbatim>\<open>performPivot\<close> of the second variant: a
  falsy dimension value becomes the key \<^verbatim>\<open>"Unknown"\<close>.
\<close>

definition pivot_row ::
  "(real \<Rightarrow> string) \<Rightarrow> string \<Rightarrow> string \<Rightarrow> string \<Rightarrow> string \<Rightarrow> pivot_acc \<Rightarrow> row \<Rightarrow> pivot_acc" where
  "pivot_row nts rowDim colDim valDim func acc r =
     (let rKey = (if rowDim = ''None'' then Str ''Total''
                  else if truthy (get r rowDim) then get r rowDim else Str ''Unknown'');
          cKey = (if colDim = ''None'' then Str ''Total''
                  else if truthy (get r colDim) then get r colDim else Str ''Unknown'')
      in accumulate nts valDim func rKey cKey r acc)"

text \<open>
  The number that a bucket entry holds. Under \<^verbatim>\<open>Sum\<close>, \<^verbatim>\<open>Average\<close>,
  \<^verbatim>\<open>Max\<close> and \<^verbatim>\<open>Min\<close> only numbers are pushed, so the other cases are not met.
\<close>

fun cell_num :: "cell \<Rightarrow> jsnum" where
  "cell_num (Num r) = Fin r"
| "cell_num _ = Fin 0"

text \<open>The \<^verbatim>\<open>switch\<close> on the function, on a bucket; the sums are binary64 sums.\<close>

definition aggregate :: "string \<Rightarrow> cell list \<Rightarrow> jsnum" where
  "aggregate func vals =
     (if length vals > 0 then
        (if func = ''Sum'' then foldl (\<lambda>a b. jadd a (cell_num b)) (Fin 0) vals
         else if func = ''Average'' then
           jdiv (foldl (\<lambda>a b. jadd a (cell_num b)) (Fin 0) vals) (Fin (real (length vals)))
         else if func = ''Count'' then Fin (real (length vals))
         else if func = ''Max'' then math_max (map cell_num vals)
         else if func = ''Min'' then math_min (map cell_num vals)
         else Fin 0)
      else Fin 0)"

definition build_grid ::
  "(real \<Rightarrow> string) \<Rightarrow> string \<Rightarrow> (string \<rightharpoonup> (string \<rightharpoonup> cell list)) \<Rightarrow> cell list \<Rightarrow> cell list
     \<Rightarrow> (string \<rightharpoonup> (string \<rightharpoonup> jsnum))" where
  "build_grid nts func vm sortedRowKeys sortedColKeys =
     foldl (\<lambda>g rKey.
              g(to_str nts rKey \<mapsto>
                foldl (\<lambda>gr cKey.
                         let vals = (case vm (to_str nts rKey) of None \<Rightarrow> []
                                     | Some m \<Rightarrow> (case m (to_str nts cKey) of None \<Rightarrow> []
                                                  | Some b \<Rightarrow> b))
                         in gr(to_str nts cKey \<mapsto> jround2 (aggregate func vals)))
                      Map.empty sortedColKeys))
           Map.empty sortedRowKeys"

definition pivot_finish :: "(real \<Rightarrow> string) \<Rightarrow> string \<Rightarrow> pivot_acc \<Rightarrow> pivot_result" where
  "pivot_finish nts func acc =
     (let sortedRowKeys = sort_by (default_compare nts) (rowSet acc);
          sortedColKeys = sort_by (default_compare nts) (colSet acc)
      in \<lparr>rowKeys = sortedRowKeys, colKeys = sortedColKeys,
          grid = build_grid nts func (valuesMap acc) sortedRowKeys sortedColKeys\<rparr>)"

definition pivot_init :: pivot_acc where
  "pivot_init = \<lparr>rowSet = [], colSet = [], valuesMap = Map.empty\<rparr>"

definition MathEngine_performPivot ::
  "(real \<Rightarrow> string) \<Rightarrow> row list \<Rightarrow> string \<Rightarrow> string \<Rightarrow> string \<Rightarrow> string \<Rightarrow> pivot_result" where
  "MathEngine_performPivot nts data rowDim colDim valDim func =
     pivot_finish nts func (foldl (MathEngine_pivot_row nts rowDim colDim valDim func) pivot_init data)"

definition performPivot ::
  "(real \<Rightarrow> string) \<Rightarrow> row list \<Rightarrow> string \<Rightarrow> string \<Rightarrow> string \<Rightarrow> string \<Rightarrow> pivot_result" where
  "performPivot nts data rowDim colDim valDim func =
     pivot_finish nts func (foldl (pivot_row nts rowDim colDim valDim func) pivot_init data)"

subsection \<open>Properties of the pivot engine\<close>

lemma truthy_not_missing: "truthy v \<Longrightarrow> \<not> is_missing v"
  by (cases v) (simp_all add: is_missing_def)

lemma pivot_rows_agree:
  assumes "rowDim \<noteq> ''None'' \<longrightarrow> truthy (get r rowDim)"
    and "colDim \<noteq> ''None'' \<longrightarrow> truthy (get r colDim)"
  shows "MathEngine_pivot_row nts rowDim colDim valDim func acc r
           = pivot_row nts rowDim colDim valDim func acc r"
  using assms
  by (auto simp: MathEngine_pivot_row_def pivot_row_def Let_def dest: truthy_not_missing)

text \<open>
  The example of the specification: three rows grouped by region, no column dimension,
  amounts summed.
\<close>

lemma MathEngine_performPivot_example:
  "rowKeys (MathEngine_performPivot toString_int
     [[(''region'', Str ''A''), (''amount'', Num 10)], [(''region'', Str ''A''), (''amount'', Num 20)],
      [(''region'', Str ''B''), (''amount'', Num 5)]] ''region'' ''None'' ''amount'' ''Sum'')
    = [Str ''A'', Str ''B'']"
  by (simp add: get_def MathEngine_performPivot_def pivot_finish_def MathEngine_pivot_row_def
      is_missing_def pivot_init_def accumulate_def set_add_def sort_by_def default_compare_def
      jgt_def Let_def)

text \<open>
  A cell of the grid is computed in binary64: the average of thirty-nine times \<open>1\<close> and
  one \<open>2\<close> is the binary64 value nearest to \<open>1.025\<close>, which is below \<open>1.025\<close> and is
  rounded to \<^verbatim>\<open>1.02\<close>.
\<close>

lemma aggregate_average_rounded:
  "aggregate ''Average'' (replicate 39 (Num 1) @ [Num 2]) = fl (41 / 40) \<and>
   jround2 (aggregate ''Average'' (replicate 39 (Num 1) @ [Num 2])) = fl (51 / 50)"
  by code_simp

text \<open>
  Claim C1, for \<^verbatim>\<open>MathEngine.performPivot\<close> (first variant). A row whose value in
  the row dimension, or in the column dimension, is absent, \<^verbatim>\<open>null\<close> or the empty
  string, the dimension being a column name and not \<^verbatim>\<open>"None"\<close>, leaves the row keys,
  the column keys and the buckets as they were, whatever the other dimension holds; the
  pivot of the dataset is the pivot of the dataset without that row.
\<close>

theorem MathEngine_performPivot_skips_row:
  assumes "(rowDim \<noteq> ''None'' \<and> is_missing (get r rowDim))
           \<or> (colDim \<noteq> ''None'' \<and> is_missing (get r colDim))"
  shows "MathEngine_pivot_row nts rowDim colDim valDim func acc r = acc \<and>
         MathEngine_performPivot nts (before @ r # after) rowDim colDim valDim func
           = MathEngine_performPivot nts (before @ after) rowDim colDim valDim func"
proof -
  have step: "MathEngine_pivot_row nts rowDim colDim valDim func a r = a" for a
    using assms by (auto simp: MathEngine_pivot_row_def Let_def)
  show ?thesis
    by (simp add: MathEngine_performPivot_def step)
qed

theorem MathEngine_performPivot_skips_row_witness:
  "is_missing (get [(''amount'', Num 7)] ''region'') \<and>
   MathEngine_performPivot toString_int
     [[(''region'', Str ''A''), (''amount'', Num 10)], [(''amount'', Num 7)]]
     ''region'' ''None'' ''amount'' ''Sum''
   = MathEngine_performPivot toString_int
     [[(''region'', Str ''A''), (''amount'', Num 10)]]
     ''region'' ''None'' ''amount'' ''Sum'' \<and>
   is_missing (get [(''region'', Str ''B''), (''year'', Null)] ''year'') \<and>
   MathEngine_pivot_row toString_int ''region'' ''year'' ''amount'' ''Count'' pivot_init
     [(''region'', Str ''B''), (''year'', Null)] = pivot_init"
  using MathEngine_performPivot_skips_row [of "''region''" "[(''amount'', Num 7)]" "''None''"
          toString_int "''amount''" "''Sum''" pivot_init
          "[[(''region'', Str ''A''), (''amount'', Num 10)]]" "[]"]
        MathEngine_performPivot_skips_row [of "''region''" "[(''region'', Str ''B''), (''year'', Null)]"
          "''year''" toString_int "''amount''" "''Count''" pivot_init "[]" "[]"]
  by (simp add: is_missing_def get_def)

text \<open>
  The claim as stated fails for \<^verbatim>\<open>performPivot\<close> of the second variant: a row
  without a value in the row dimension is not skipped, it is counted under the row key
  \<^verbatim>\<open>"Unknown"\<close>, with a column key and a bucket.
\<close>

theorem performPivot_unknown_counterexample:
  "is_missing (get [(''amount'', Num 7)] ''region'') \<and>
   rowKeys (performPivot toString_int [[(''amount'', Num 7)]] ''region'' ''None'' ''amount'' ''Sum'')
     = [Str ''Unknown''] \<and>
   colKeys (performPivot toString_int [[(''amount'', Num 7)]] ''region'' ''None'' ''amount'' ''Sum'')
     = [Str ''Total''] \<and>
   valuesMap (pivot_row toString_int ''region'' ''None'' ''amount'' ''Sum'' pivot_init
                [(''amount'', Num 7)]) ''Unknown'' \<noteq> None"
  by (simp add: is_missing_def get_def performPivot_def pivot_finish_def pivot_row_def
      pivot_init_def accumulate_def set_add_def sort_by_def Let_def)

text \<open>
  Claim C9, as the code has it. The two pivot engines return the same row keys, column
  keys and grid on every dataset in which each row's value in the row dimension and in
  the column dimension (where the dimension is not \<^verbatim>\<open>"None"\<close>) is truthy: a
  non-empty string or a number other than \<open>0\<close>.
\<close>

theorem pivot_variants_agree:
  assumes "\<forall>r\<in>set data. (rowDim \<noteq> ''None'' \<longrightarrow> truthy (get r rowDim))
                        \<and> (colDim \<noteq> ''None'' \<longrightarrow> truthy (get r colDim))"
  shows "MathEngine_performPivot nts data rowDim colDim valDim func
           = performPivot nts data rowDim colDim valDim func"
proof -
  have "foldl (MathEngine_pivot_row nts rowDim colDim valDim func) pivot_init data
          = foldl (pivot_row nts rowDim colDim valDim func) pivot_init data"
    using assms by (intro foldl_cong refl pivot_rows_agree) auto
  then show ?thesis
    by (simp add: MathEngine_performPivot_def performPivot_def)
qed

theorem pivot_variants_agree_witness:
  "truthy (get [(''region'', Str ''A''), (''amount'', Num 10)] ''region'') \<and>
   truthy (get [(''region'', Str ''B''), (''amount'', Num 5)] ''region'') \<and>
   MathEngine_performPivot toString_int
     [[(''region'', Str ''A''), (''amount'', Num 10)], [(''region'', Str ''B''), (''amount'', Num 5)]]
     ''region'' ''None'' ''amount'' ''Sum''
   = performPivot toString_int
     [[(''region'', Str ''A''), (''amount'', Num 10)], [(''region'', Str ''B''), (''amount'', Num 5)]]
     ''region'' ''None'' ''amount'' ''Sum''"
  using pivot_variants_agree [of
     "[[(''region'', Str ''A''), (''amount'', Num 10)], [(''region'', Str ''B''), (''amount'', Num 5)]]"
     "''region''" "''None''" toString_int "''amount''" "''Sum''"]
  by (simp add: get_def)

text \<open>
  The claim as stated fails: on a row whose region is the empty string the first variant
  has no row key and the second has the row key \<^verbatim>\<open>"Unknown"\<close>.
\<close>

theorem pivot_variants_differ_counterexample:
  "MathEngine_performPivot toString_int
     [[(''region'', Str []), (''amount'', Num 10)]] ''region'' ''None'' ''amount'' ''Sum''
   \<noteq> performPivot toString_int
     [[(''region'', Str []), (''amount'', Num 10)]] ''region'' ''None'' ''amount'' ''Sum''"
proof -
  have "rowKeys (MathEngine_performPivot toString_int
     [[(''region'', Str []), (''amount'', Num 10)]] ''region'' ''None'' ''amount'' ''Sum'') = []"
    by (simp add: is_missing_def get_def MathEngine_performPivot_def pivot_finish_def
        MathEngine_pivot_row_def pivot_init_def sort_by_def Let_def)
  moreover have "rowKeys (performPivot toString_int
     [[(''region'', Str []), (''amount'', Num 10)]] ''region'' ''None'' ''amount'' ''Sum'')
       = [Str ''Unknown'']"
    by (simp add: get_def performPivot_def pivot_finish_def pivot_row_def
      pivot_init_def accumulate_def set_add_def sort_by_def Let_def)
  ultimately show ?thesis by (metis list.distinct(1))
qed

section \<open>Conversion to numbers\<close>

text \<open>
  \<^verbatim>\<open>Number(v)\<close>. On a string this is the language's \<^verbatim>\<open>StringToNumber\<close>: white
  space is trimmed, the empty string is \<open>0\<close>, then come \<^verbatim>\<open>Infinity\<close> with an optional
  sign, an unsigned hexadecimal, octal or binary integer, or a signed decimal literal with
  an optional fraction and exponent; anything else is NaN. The number is the binary64
  value nearest to the exact value of the literal, an infinity when that is out of range.
\<close>

definition is_space :: "char \<Rightarrow> bool" where
  "is_space c = ((of_char c :: nat) \<in> {9, 10, 11, 12, 13, 32, 160})"

definition trim :: "string \<Rightarrow> string" where
  "trim s = rev (dropWhile is_space (rev (dropWhile is_space s)))"

definition is_digit :: "char \<Rightarrow> bool" where
  "is_digit c = (48 \<le> (of_char c :: nat) \<and> (of_char c :: nat) \<le> 57)"

definition digits_val :: "string \<Rightarrow> nat" where
  "digits_val s = foldl (\<lambda>a c. 10 * a + (of_char c - 48)) 0 s"

text \<open>The value of a digit in a radix up to sixteen, when it is one.\<close>

definition radix_digit :: "nat \<Rightarrow> char \<Rightarrow> nat option" where
  "radix_digit b c =
     (let k = (of_char c :: nat);
          v = (if 48 \<le> k \<and> k \<le> 57 then Some (k - 48)
               else if 97 \<le> k \<and> k \<le> 102 then Some (k - 87)
               else if 65 \<le> k \<and> k \<le> 70 then Some (k - 55)
               else None)
      in case v of None \<Rightarrow> None | Some d \<Rightarrow> if d < b then Some d else None)"

fun radix_val :: "nat \<Rightarrow> string \<Rightarrow> nat \<Rightarrow> nat option" where
  "radix_val b [] a = Some a"
| "radix_val b (c # cs) a =
     (case radix_digit b c of None \<Rightarrow> None | Some d \<Rightarrow> radix_val b cs (b * a + d))"

definition non_decimal :: "string \<Rightarrow> nat option" where
  "non_decimal t =
     (case t of
        z # p # ds \<Rightarrow>
          if z = CHR ''0'' \<and> ds \<noteq> [] then
            (if p = CHR ''x'' \<or> p = CHR ''X'' then radix_val 16 ds 0
             else if p = CHR ''o'' \<or> p = CHR ''O'' then radix_val 8 ds 0
             else if p = CHR ''b'' \<or> p = CHR ''B'' then radix_val 2 ds 0
             else None)
          else None
      | _ \<Rightarrow> None)"

definition all_digits :: "string \<Rightarrow> int option" where
  "all_digits ds = (if ds \<noteq> [] \<and> list_all is_digit ds then Some (int (digits_val ds)) else None)"

definition parse_exponent :: "string \<Rightarrow> int option" where
  "parse_exponent s =
     (case s of
        [] \<Rightarrow> Some 0
      | e # t \<Rightarrow>
          if e = CHR ''e'' \<or> e = CHR ''E'' then
            (case t of
               [] \<Rightarrow> None
             | sg # ds \<Rightarrow>
                 if sg = CHR ''+'' then all_digits ds
                 else if sg = CHR ''-'' then map_option uminus (all_digits ds)
                 else all_digits t)
          else None)"

definition scale10 :: "real \<Rightarrow> int \<Rightarrow> real" where
  "scale10 m e = (if 0 \<le> e then m * 10 ^ nat e else m / 10 ^ nat (- e))"

definition parse_unsigned :: "string \<Rightarrow> real option" where
  "parse_unsigned s =
     (let ip = takeWhile is_digit s;
          r1 = dropWhile is_digit s
      in case r1 of
           [] \<Rightarrow> if ip = [] then None else Some (real (digits_val ip))
         | c # t \<Rightarrow>
             if c = CHR ''.'' then
               (let fp = takeWhile is_digit t;
                    r2 = dropWhile is_digit t
                in if ip = [] \<and> fp = [] then None
                   else map_option
                          (scale10 (real (digits_val ip) + real (digits_val fp) / 10 ^ length fp))
                          (parse_exponent r2))
             else if ip = [] then None
             else map_option (scale10 (real (digits_val ip))) (parse_exponent r1))"

definition str_to_number :: "string \<Rightarrow> jsnum" where
  "str_to_number s =
     (let t = trim s in
      if t = [] then Fin 0
      else if t = ''Infinity'' \<or> t = ''+Infinity'' then PInf
      else if t = ''-Infinity'' then NInf
      else case non_decimal t of
             Some n \<Rightarrow> fl (real n)
           | None \<Rightarrow>
               (if hd t = CHR ''+'' then
                  (case parse_unsigned (tl t) of None \<Rightarrow> NaN | Some r \<Rightarrow> fl r)
                else if hd t = CHR ''-'' then
                  (case parse_unsigned (tl t) of None \<Rightarrow> NaN | Some r \<Rightarrow> fl (- r))
                else
                  (case parse_unsigned t of None \<Rightarrow> NaN | Some r \<Rightarrow> fl r)))"

fun toNumber :: "cell \<Rightarrow> jsnum" where
  "toNumber Undefined = NaN"
| "toNumber Null = Fin 0"
| "toNumber (Num r) = Fin r"
| "toNumber (Str s) = str_to_number s"

text \<open>\<^verbatim>\<open>Number(v) || 0\<close> and \<^verbatim>\<open>String(v || "N/A")\<close>\<close>

definition number_or_zero :: "cell \<Rightarrow> jsnum" where
  "number_or_zero v = (let n = toNumber v in if n = NaN \<or> n = Fin 0 then Fin 0 else n)"

definition string_or_na :: "(real \<Rightarrow> string) \<Rightarrow> cell \<Rightarrow> string" where
  "string_or_na nts v = (if truthy v then to_str nts v else ''N/A'')"

section \<open>Property order\<close>

text \<open>
  An object enumerates its own properties with the array indices first, in ascending
  numeric order, and then the other names in the order of their creation. An array index
  is the canonical decimal text of an integer from \<open>0\<close> to \<open>2\<^sup>3\<^sup>2 - 2 = 4294967294\<close>; among
  decimal texts of ten digits the smaller number is the smaller string.
\<close>

definition is_array_index :: "string \<Rightarrow> bool" where
  "is_array_index s =
     (s \<noteq> [] \<and> list_all is_digit s \<and> (hd s = CHR ''0'' \<longrightarrow> length s = 1)
      \<and> (length s < 10 \<or> (length s = 10 \<and> str_less s ''4294967295'')))"

definition own_order :: "('a \<Rightarrow> string) \<Rightarrow> 'a list \<Rightarrow> 'a list" where
  "own_order key xs =
     sort_key (\<lambda>x. digits_val (key x)) (filter (\<lambda>x. is_array_index (key x)) xs)
     @ filter (\<lambda>x. \<not> is_array_index (key x)) xs"

text \<open>
  A row lists its properties in the order of their creation, the first pair for a name
  being the property. \<^verbatim>\<open>Object.keys(row)\<close>:
\<close>

definition Object_keys :: "row \<Rightarrow> string list" where
  "Object_keys r = own_order id (rev (remdups (rev (map fst r))))"

section \<open>Dates\<close>

text \<open>
  \<^verbatim>\<open>ExcelDateUtils.isLikelyDate\<close>. The two counts are at most fifty, so their
  binary64 quotient exceeds the binary64 value of \<^verbatim>\<open>0.8\<close> exactly when the exact
  quotient exceeds \<open>8 / 10\<close>.
\<close>

definition in_date_range :: "cell \<Rightarrow> bool" where
  "in_date_range v = (case v of Num r \<Rightarrow> 32000 < r \<and> r < 75000 | _ \<Rightarrow> False)"

definition isLikelyDate :: "cell list \<Rightarrow> bool" where
  "isLikelyDate values =
     (if values = [] then False
      else
        let checkLimit = min (length values) 50;
            validCount = length (filter in_date_range (take checkLimit values))
        in real validCount / real checkLimit > 8 / 10)"

text \<open>
  The calendar date of a day number counted from 1970-01-01, in the proleptic Gregorian
  calendar, which is what \<^verbatim>\<open>getUTCFullYear\<close>, \<^verbatim>\<open>getUTCMonth\<close> and
  \<^verbatim>\<open>getUTCDate\<close> read off a time value that is a whole number of days.
\<close>

definition civil_from_days :: "int \<Rightarrow> int \<times> int \<times> int" where
  "civil_from_days days =
     (let z = days + 719468;
          era = z div 146097;
          doe = z - era * 146097;
          yoe = (doe - doe div 1460 + doe div 36524 - doe div 146096) div 365;
          doy = doe - (365 * yoe + yoe div 4 - yoe div 100);
          mp = (5 * doy + 2) div 153;
          d = doy - (153 * mp + 2) div 5 + 1;
          m = (if mp < 10 then mp + 3 else mp - 9);
          y = yoe + era * 400 + (if m \<le> 2 then 1 else 0)
      in (y, m, d))"

definition show_int :: "int \<Rightarrow> string" where
  "show_int i = (if i < 0 then ''-'' @ show_nat (nat (- i)) else show_nat (nat i))"

text \<open>\<^verbatim>\<open>String(n).padStart(2, '0')\<close> for a month or a day\<close>

definition pad2 :: "int \<Rightarrow> string" where
  "pad2 n = (if 0 \<le> n \<and> n < 10 then ''0'' @ show_int n else show_int n)"

text \<open>
  \<^verbatim>\<open>ExcelDateUtils.serialToDateStr\<close>. The difference \<^verbatim>\<open>serial - 25569\<close> is a
  binary64 difference. A time value beyond \<open>8.64 \<cdot> 10\<^sup>1\<^sup>5\<close> milliseconds is an invalid
  date, whose three fields are NaN; up to that bound the two products are whole numbers
  below \<open>2\<^sup>5\<^sup>3\<close> and exact.
\<close>

definition serialToDateStr :: "real \<Rightarrow> string" where
  "serialToDateStr serial =
     (case jsub (Fin serial) (Fin 25569) of
        Fin d \<Rightarrow>
          (let utc_days = \<lfloor>d\<rfloor>;
               utc_value = utc_days * 86400
           in if \<bar>utc_value * 1000\<bar> > 8640000000000000 then ''NaN-NaN-NaN''
              else
                let (year, month, day) = civil_from_days utc_days
                in show_int year @ ''-'' @ pad2 month @ ''-'' @ pad2 day)
      | _ \<Rightarrow> ''NaN-NaN-NaN'')"

section \<open>Profiling a dataset\<close>

subsection \<open>Column classification\<close>

text \<open>
  The loop over the first fifty rows of one column: \<open>scan_column vals checkCount\<close> returns
  \<^verbatim>\<open>isNum\<close> and \<^verbatim>\<open>checkCount\<close> as the loop leaves them; the first value that
  converts to NaN ends the loop.
\<close>

fun scan_column :: "cell list \<Rightarrow> nat \<Rightarrow> bool \<times> nat" where
  "scan_column [] checkCount = (True, checkCount)"
| "scan_column (val # rest) checkCount =
     (if \<not> is_missing val then
        (if isNaN (toNumber val) then (False, checkCount + 1)
         else scan_column rest (checkCount + 1))
      else scan_column rest checkCount)"

definition inspected :: "row list \<Rightarrow> string \<Rightarrow> cell list" where
  "inspected json header = map (\<lambda>r. get r header) (take (min (length json) 50) json)"

definition is_numeric_column :: "row list \<Rightarrow> string \<Rightarrow> bool" where
  "is_numeric_column json header =
     (case scan_column (inspected json header) 0 of (isNum, checkCount) \<Rightarrow> checkCount > 0 \<and> isNum)"

text \<open>
  The names filed in \<^verbatim>\<open>numericCols\<close> and in \<^verbatim>\<open>catCols\<close>, in the order of their
  creation.
\<close>

definition numericCols :: "row list \<Rightarrow> string list \<Rightarrow> string list" where
  "numericCols json headers = filter (is_numeric_column json) headers"

definition catCols :: "row list \<Rightarrow> string list \<Rightarrow> string list" where
  "catCols json headers = filter (\<lambda>h. \<not> is_numeric_column json h) headers"

subsection \<open>Numeric KPIs\<close>

text \<open>
  \<^verbatim>\<open>Math.floor(sorted.length / 2)\<close> is the exact floor: a length is below \<open>2\<^sup>3\<^sup>2\<close>
  and its half is a binary64 value.
\<close>

definition calculateMedian :: "jsnum list \<Rightarrow> jsnum" where
  "calculateMedian values =
     (if length values = 0 then Fin 0
      else
        let sorted = sort_by (\<lambda>a b. jsub a b) values;
            half = nat \<lfloor>real (length sorted) / 2\<rfloor>
        in if length sorted mod 2 \<noteq> 0 then sorted ! half
           else jdiv (jadd (sorted ! (half - 1)) (sorted ! half)) (Fin 2))"

definition calculateStdDev :: "jsnum list \<Rightarrow> jsnum \<Rightarrow> jsnum" where
  "calculateStdDev values average =
     (if length values = 0 then Fin 0
      else
        let squareDiffs = map (\<lambda>v. let diff = jsub v average in jmul diff diff) values;
            avgSquareDiff = jdiv (sum_reduce squareDiffs) (Fin (real (length squareDiffs)))
        in jsqrt avgSquareDiff)"

definition numeric_kpi_of :: "string \<Rightarrow> jsnum list \<Rightarrow> numeric_kpi" where
  "numeric_kpi_of col values =
     (let average = jdiv (sum_reduce values) (Fin (real (length values)))
      in \<lparr>column = col, rawData = values,
          min_kpi = math_min values, max_kpi = math_max values,
          avg = jround2 average,
          median = jround2 (calculateMedian values),
          stdDev = jround2 (calculateStdDev values average)\<rparr>)"

subsection \<open>Categorical KPIs\<close>

text \<open>
  The object \<^verbatim>\<open>counts = {}\<close> inherits the members of \<^verbatim>\<open>Object.prototype\<close>:
  eleven functions and the accessor \<^verbatim>\<open>__proto__\<close>.
\<close>

definition object_prototype :: "string list" where
  "object_prototype =
     [''constructor'', ''__defineGetter__'', ''__defineSetter__'', ''hasOwnProperty'',
      ''__lookupGetter__'', ''__lookupSetter__'', ''isPrototypeOf'', ''propertyIsEnumerable'',
      ''toString'', ''valueOf'', ''__proto__'', ''toLocaleString'']"

text \<open>
  What \<^verbatim>\<open>counts\<close> holds under a name: a number of occurrences, or, under the name
  of an inherited function, a string: the text of that function followed by as many
  digits \<^verbatim>\<open>1\<close> as the name has occurred. The number of occurrences is a whole number
  below \<open>2\<^sup>3\<^sup>2\<close>, where adding \<open>1\<close> is exact. As a number, the string is NaN.
\<close>

datatype count = Times nat | Text nat

fun count_num :: "count \<Rightarrow> jsnum" where
  "count_num (Times n) = Fin (real n)"
| "count_num (Text k) = NaN"

text \<open>
  \<^verbatim>\<open>counts[v] = (counts[v] || 0) + 1\<close> on the object \<^verbatim>\<open>counts\<close>, kept as the list
  of its own properties in the order of their creation. A name that \<^verbatim>\<open>counts\<close>
  does not have itself is read from the prototype: an inherited function is truthy and
  \<^verbatim>\<open>+ 1\<close> appends \<^verbatim>\<open>1\<close> to its text, which the assignment stores as an own
  property; under \<^verbatim>\<open>__proto__\<close> the assignment calls the inherited setter, which
  ignores a string, so that \<^verbatim>\<open>counts\<close> stays as it was.
\<close>

definition bump :: "(string \<times> count) list \<Rightarrow> string \<Rightarrow> (string \<times> count) list" where
  "bump counts v =
     (case map_of counts v of
        None \<Rightarrow>
          if v = ''__proto__'' then counts
          else if v \<in> set object_prototype then counts @ [(v, Text 1)]
          else counts @ [(v, Times 1)]
      | Some (Times c) \<Rightarrow> AList.update v (Times (c + 1)) counts
      | Some (Text k) \<Rightarrow> AList.update v (Text (k + 1)) counts)"

record categorical_kpi = kpi_base +
  topValues :: "(string \<times> count) list"
  uniqueCount :: nat

text \<open>
  An element of \<^verbatim>\<open>topValues\<close>, the object \<^verbatim>\<open>{name, count}\<close>, is the pair of the
  name and the count.
\<close>

definition categorical_kpi_of :: "string \<Rightarrow> string list \<Rightarrow> categorical_kpi" where
  "categorical_kpi_of col values =
     (let counts = foldl bump [] values;
          sorted = sort_by (\<lambda>a b. jsub (count_num (snd b)) (count_num (snd a)))
                           (own_order fst counts)
      in \<lparr>column = col, topValues = take 5 sorted, uniqueCount = length sorted\<rparr>)"

subsection \<open>The pipeline\<close>

record analytics =
  numeric :: "numeric_kpi list"
  categorical :: "categorical_kpi list"
  raw :: "row list"
  headers :: "string list"

text \<open>
  Classification, extraction and the KPIs, the same text in both variants. The headers are
  distinct, so the nested \<^verbatim>\<open>forEach\<close> that pushes one value per row and header fills
  the array of a column with that column's values in row order.
\<close>

definition profile :: "(real \<Rightarrow> string) \<Rightarrow> string list \<Rightarrow> row list \<Rightarrow> analytics" where
  "profile nts hs json =
     \<lparr>numeric =
        map (\<lambda>col. numeric_kpi_of col (map (\<lambda>r. number_or_zero (get r col)) json))
            (own_order id (numericCols json hs)),
      categorical =
        map (\<lambda>col. categorical_kpi_of col (map (\<lambda>r. string_or_na nts (get r col)) json))
            (own_order id (catCols json hs)),
      raw = json,
      headers = hs\<rparr>"

text \<open>
  The date step of the first variant. \<^verbatim>\<open>dateColumns\<close> is a \<^verbatim>\<open>Set\<close>; the rows
  are rewritten in place, every number under a date column becoming its date string.
\<close>

definition dateColumns :: "row list \<Rightarrow> string list \<Rightarrow> string list" where
  "dateColumns json hs =
     foldl (\<lambda>s header.
              if isLikelyDate (map (\<lambda>r. get r header) (take 50 json)) then set_add header s
              else s)
           [] hs"

definition convert_row :: "string list \<Rightarrow> row \<Rightarrow> row" where
  "convert_row cols r =
     foldl (\<lambda>r col. case get r col of
                       Num serial \<Rightarrow> AList.update col (Str (serialToDateStr serial)) r
                     | _ \<Rightarrow> r)
           r cols"

definition convert_dates :: "row list \<Rightarrow> string list \<Rightarrow> row list" where
  "convert_dates json hs =
     (let cols = dateColumns json hs
      in if length cols > 0 then map (convert_row cols) json else json)"

text \<open>
  \<^verbatim>\<open>processData\<close> of the first variant. It returns nothing on an empty dataset;
  otherwise the result is what it hands to \<^verbatim>\<open>setAnalyticsData\<close>, whose \<open>raw\<close> is the
  dataset as the call leaves it.
\<close>

definition processData :: "(real \<Rightarrow> string) \<Rightarrow> row list \<Rightarrow> analytics option" where
  "processData nts json =
     (if length json = 0 then None
      else
        let hs = Object_keys (hd json)
        in Some (profile nts hs (convert_dates json hs)))"

text \<open>
  \<^verbatim>\<open>processData\<close> of the second variant has no date step and no test for an empty
  dataset, where reading \<^verbatim>\<open>json[0]\<close>'s keys throws.
\<close>

datatype js_error = TypeError

definition processData_plain :: "(real \<Rightarrow> string) \<Rightarrow> row list \<Rightarrow> js_error + analytics" where
  "processData_plain nts json =
     (if json = [] then Inl TypeError
      else Inr (profile nts (Object_keys (hd json)) json))"

section \<open>Properties of the profiling pipeline\<close>

subsection \<open>Evaluating the host functions\<close>

lemma str_to_number_decimal: "str_to_number ''12.5'' = Fin (25 / 2)"
  by code_simp

lemma str_to_number_Infinity: "str_to_number ''Infinity'' = PInf"
  by code_simp

lemma str_to_number_date: "str_to_number ''2023-03-15'' = NaN"
  by code_simp

text \<open>
  A decimal text is rounded: \<^verbatim>\<open>"0.1"\<close> is the binary64 value nearest to one tenth,
  \<^verbatim>\<open>"1e400"\<close> overflows to an infinity and \<^verbatim>\<open>"1e-400"\<close> underflows to zero.
\<close>

lemma str_to_number_tenth:
  "str_to_number ''0.1'' = Fin (3602879701896397 / 36028797018963968)"
  by code_simp

lemma str_to_number_overflow: "str_to_number ''1e400'' = PInf"
proof -
  have t: "trim ''1e400'' = ''1e400''" by code_simp
  have n: "non_decimal ''1e400'' = None" by code_simp
  have p: "parse_unsigned ''1e400'' = Some (10 ^ 400)" by code_simp
  have "(2::real) ^ 1024 \<le> \<bar>10 ^ 400\<bar>" by simp
  then have "fl (10 ^ 400) = PInf" using fl_overflow [of "10 ^ 400"] by simp
  then show ?thesis by (simp add: str_to_number_def t n p)
qed

lemma str_to_number_underflow: "str_to_number ''1e-400'' = Fin 0"
proof -
  have t: "trim ''1e-400'' = ''1e-400''" by code_simp
  have n: "non_decimal ''1e-400'' = None" by code_simp
  have p: "parse_unsigned ''1e-400'' = Some (1 / 10 ^ 400)" by code_simp
  have "\<bar>1 / 10 ^ 400\<bar> < min_value / 2" by (simp add: min_value_def)
  then have "fl (1 / 10 ^ 400) = Fin 0" by (rule fl_underflow)
  then show ?thesis by (simp add: str_to_number_def t n p)
qed

lemma serialToDateStr_45000: "serialToDateStr 45000 = ''2023-03-15''"
  by code_simp

subsection \<open>Raw series\<close>

lemma rawData_numeric_kpi_of: "rawData (numeric_kpi_of col values) = values"
  by (simp add: numeric_kpi_of_def Let_def)

lemma rawData_profile:
  "map rawData (numeric (profile nts hs json))
     = map (\<lambda>col. map (\<lambda>r. number_or_zero (get r col)) json) (own_order id (numericCols json hs))"
  by (simp add: profile_def rawData_numeric_kpi_of comp_def)

text \<open>
  A raw series holds no NaN, but it can hold an infinity: a column with the text
  \<^verbatim>\<open>Infinity\<close> in a cell is numeric, and the cell's number is kept.
\<close>

lemma number_or_zero_not_NaN: "number_or_zero v \<noteq> NaN"
  by (simp add: number_or_zero_def Let_def)

lemma rawData_with_infinity:
  "map rawData (numeric (profile toString_int [''a'', ''b'']
      [[(''a'', Str ''Infinity''), (''b'', Num 1)], [(''a'', Num 1), (''b'', Num 2)]]))
     = [[PInf, Fin 1], [Fin 1, Fin 2]]"
  unfolding rawData_profile by code_simp

subsection \<open>Classification\<close>

lemma scan_column_isNum:
  "fst (scan_column vs c) \<longleftrightarrow> (\<forall>v\<in>set vs. \<not> is_missing v \<longrightarrow> \<not> isNaN (toNumber v))"
  by (induction vs arbitrary: c) auto

lemma scan_column_checkCount:
  "0 < snd (scan_column vs c) \<longleftrightarrow> 0 < c \<or> (\<exists>v\<in>set vs. \<not> is_missing v)"
  by (induction vs arbitrary: c) auto

text \<open>
  The classification rule in the words of the specification: a value is present, and
  every present value converts to a finite number.
\<close>

definition spec_numeric :: "row list \<Rightarrow> string \<Rightarrow> bool" where
  "spec_numeric json header =
     ((\<exists>v\<in>set (inspected json header). \<not> is_missing v) \<and>
      (\<forall>v\<in>set (inspected json header). \<not> is_missing v \<longrightarrow> isFinite (toNumber v)))"

text \<open>
  Claim C4, as the code has it. The classifier inspects the first fifty rows (all of
  them when there are fewer) of a column named in row \<open>0\<close>. The column is Numeric if and
  only if an inspected value is present (not absent, \<^verbatim>\<open>null\<close> or the empty string) and
  every present inspected value converts to a number that is not NaN; otherwise, and so
  for a column with no present value, it is Categorical.
\<close>

theorem is_numeric_column_iff:
  "(is_numeric_column json header \<longleftrightarrow>
      (\<exists>v\<in>set (inspected json header). \<not> is_missing v) \<and>
      (\<forall>v\<in>set (inspected json header). \<not> is_missing v \<longrightarrow> \<not> isNaN (toNumber v))) \<and>
   inspected json header = map (\<lambda>r. get r header) (take 50 json) \<and>
   (header \<in> set hs \<longrightarrow>
      (header \<in> set (numericCols json hs) \<longleftrightarrow> is_numeric_column json header) \<and>
      (header \<in> set (catCols json hs) \<longleftrightarrow> \<not> is_numeric_column json header))"
proof (intro conjI impI)
  show "is_numeric_column json header \<longleftrightarrow>
      (\<exists>v\<in>set (inspected json header). \<not> is_missing v) \<and>
      (\<forall>v\<in>set (inspected json header). \<not> is_missing v \<longrightarrow> \<not> isNaN (toNumber v))"
    using scan_column_isNum [of "inspected json header" 0]
          scan_column_checkCount [of "inspected json header" 0]
    by (auto simp: is_numeric_column_def split: prod.splits)
  show "inspected json header = map (\<lambda>r. get r header) (take 50 json)"
    by (simp add: inspected_def min_def)
  show "header \<in> set hs \<Longrightarrow>
          header \<in> set (numericCols json hs) \<longleftrightarrow> is_numeric_column json header"
    by (simp add: numericCols_def)
  show "header \<in> set hs \<Longrightarrow>
          header \<in> set (catCols json hs) \<longleftrightarrow> \<not> is_numeric_column json header"
    by (simp add: catCols_def)
qed

theorem is_numeric_column_iff_witness:
  "''c'' \<in> set [''c'', ''d''] \<and>
   is_numeric_column [[(''c'', Str ''12.5''), (''d'', Null)], [(''c'', Null), (''d'', Str [])]] ''c'' \<and>
   ''c'' \<in> set (numericCols [[(''c'', Str ''12.5''), (''d'', Null)], [(''c'', Null), (''d'', Str [])]]
                    [''c'', ''d'']) \<and>
   \<not> is_numeric_column [[(''c'', Str ''12.5''), (''d'', Null)], [(''c'', Null), (''d'', Str [])]] ''d'' \<and>
   ''d'' \<in> set (catCols [[(''c'', Str ''12.5''), (''d'', Null)], [(''c'', Null), (''d'', Str [])]]
                    [''c'', ''d''])"
  using is_numeric_column_iff [of "[[(''c'', Str ''12.5''), (''d'', Null)], [(''c'', Null), (''d'', Str [])]]"
          "''c''" "[''c'', ''d'']"]
        is_numeric_column_iff [of "[[(''c'', Str ''12.5''), (''d'', Null)], [(''c'', Null), (''d'', Str [])]]"
          "''d''" "[''c'', ''d'']"]
  by (simp add: get_def is_missing_def isNaN_def str_to_number_decimal)

text \<open>
  The claim as stated fails on a column whose only value is the text \<^verbatim>\<open>Infinity\<close>: it
  converts to an infinity, which is not NaN, so the column is Numeric although its value
  does not convert to a finite number.
\<close>

theorem is_numeric_column_infinity_counterexample:
  "is_numeric_column [[(''c'', Str ''Infinity'')]] ''c'' \<and>
   \<not> spec_numeric [[(''c'', Str ''Infinity'')]] ''c''"
  by (simp add: is_numeric_column_def spec_numeric_def inspected_def get_def is_missing_def
      isNaN_def isFinite_def str_to_number_Infinity)

subsection \<open>Idempotence of the pipeline\<close>

text \<open>What the date step makes of a cell under a date column.\<close>

definition conv_cell :: "cell \<Rightarrow> cell" where
  "conv_cell v = (case v of Num serial \<Rightarrow> Str (serialToDateStr serial) | _ \<Rightarrow> v)"

lemma conv_cell_idem: "conv_cell (conv_cell v) = conv_cell v"
  by (cases v) (simp_all add: conv_cell_def)

lemma conv_cell_not_range: "\<not> in_date_range (conv_cell v)"
  by (cases v) (simp_all add: conv_cell_def in_date_range_def)

lemma get_update: "get (AList.update k v r) h = (if h = k then v else get r h)"
  by (simp add: get_def update_conv')

lemma get_Num_key: "get r k = Num s \<Longrightarrow> k \<in> fst ` set r"
  by (auto simp: get_def split: option.splits dest: map_of_SomeD intro: rev_image_eqI)

lemma convert_step_get:
  "get (case get r c of Num serial \<Rightarrow> AList.update c (Str (serialToDateStr serial)) r | _ \<Rightarrow> r) h
     = (if h = c then conv_cell (get r h) else get r h)"
  by (cases "get r c") (simp_all add: get_update conv_cell_def)

lemma convert_step_keys:
  "map fst (case get r c of Num serial \<Rightarrow> AList.update c (Str (serialToDateStr serial)) r | _ \<Rightarrow> r)
     = map fst r"
  by (cases "get r c") (auto simp: update_keys dest: get_Num_key)

lemma get_convert_row:
  "get (convert_row cols r) h = (if h \<in> set cols then conv_cell (get r h) else get r h)"
  unfolding convert_row_def
proof (induction cols arbitrary: r)
  case Nil
  then show ?case by simp
next
  case (Cons c cs)
  show ?case
    by (simp add: Cons.IH convert_step_get conv_cell_idem)
qed

lemma keys_convert_row: "map fst (convert_row cols r) = map fst r"
  unfolding convert_row_def
  by (induction cols arbitrary: r) (simp_all add: convert_step_keys)

lemma Object_keys_convert_row: "Object_keys (convert_row cols r) = Object_keys r"
  by (simp add: Object_keys_def keys_convert_row)

lemma set_dateColumns_aux:
  "set (foldl (\<lambda>s h. if P h then set_add h s else s) s0 hs) = set s0 \<union> {h \<in> set hs. P h}"
  by (induction hs arbitrary: s0) (auto simp: set_add_def)

lemma set_dateColumns:
  "set (dateColumns json hs)
     = {h \<in> set hs. isLikelyDate (map (\<lambda>r. get r h) (take 50 json))}"
  unfolding dateColumns_def by (simp add: set_dateColumns_aux)

lemma isLikelyDate_no_range:
  assumes "\<forall>v\<in>set vs. \<not> in_date_range v"
  shows "\<not> isLikelyDate vs"
proof -
  have "filter in_date_range (take n vs) = []" for n
    using assms by (auto simp: filter_empty_conv dest: in_set_takeD)
  then show ?thesis by (simp add: isLikelyDate_def Let_def)
qed

lemma converted_not_likely:
  assumes "cols = dateColumns json hs" and "h \<in> set hs"
  shows "\<not> isLikelyDate (map (\<lambda>r. get r h) (take 50 (map (convert_row cols) json)))"
proof (cases "h \<in> set cols")
  case True
  have "\<forall>v\<in>set (map (\<lambda>r. get r h) (take 50 (map (convert_row cols) json))). \<not> in_date_range v"
    using True by (auto simp: take_map get_convert_row conv_cell_not_range)
  then show ?thesis by (rule isLikelyDate_no_range)
next
  case False
  then have "map (\<lambda>r. get r h) (take 50 (map (convert_row cols) json))
               = map (\<lambda>r. get r h) (take 50 json)"
    by (simp add: take_map get_convert_row comp_def)
  moreover have "\<not> isLikelyDate (map (\<lambda>r. get r h) (take 50 json))"
    using False assms set_dateColumns [of json hs] by auto
  ultimately show ?thesis by simp
qed

lemma dateColumns_converted:
  "dateColumns (map (convert_row (dateColumns json hs)) json) hs = []"
proof -
  have "set (dateColumns (map (convert_row (dateColumns json hs)) json) hs) = {}"
    unfolding set_dateColumns using converted_not_likely [OF refl, of _ hs json] by auto
  then show ?thesis by simp
qed

lemma convert_dates_idem: "convert_dates (convert_dates json hs) hs = convert_dates json hs"
  by (simp add: convert_dates_def Let_def dateColumns_converted)

lemma hd_convert_dates:
  "json \<noteq> [] \<Longrightarrow> Object_keys (hd (convert_dates json hs)) = Object_keys (hd json)"
  by (simp add: convert_dates_def Let_def hd_map Object_keys_convert_row)

lemma convert_dates_Nil: "convert_dates json hs = [] \<longleftrightarrow> json = []"
  by (simp add: convert_dates_def Let_def)

lemma raw_profile: "raw (profile nts hs json) = json"
  by (simp add: profile_def)

lemma processData_rerun:
  assumes "processData nts json = Some a"
  shows "processData nts (raw a) = Some a"
proof -
  have ne: "json \<noteq> []" using assms by (auto simp: processData_def split: if_splits)
  define hs where "hs = Object_keys (hd json)"
  have a: "a = profile nts hs (convert_dates json hs)"
    using assms ne by (simp add: processData_def hs_def Let_def)
  have r: "raw a = convert_dates json hs" by (simp add: a raw_profile)
  have ne': "raw a \<noteq> []" using ne by (simp add: r convert_dates_Nil)
  have k: "Object_keys (hd (raw a)) = hs"
    using ne by (simp add: r hd_convert_dates hs_def)
  have "processData nts (raw a) = Some (profile nts hs (convert_dates (raw a) hs))"
    using ne' k by (simp add: processData_def Let_def)
  also have "convert_dates (raw a) hs = convert_dates json hs"
    by (simp add: r convert_dates_idem)
  finally show ?thesis by (simp add: a)
qed

text \<open>
  Claim C7. On a non-empty dataset \<^verbatim>\<open>processData\<close> produces its result, and run again
  on the dataset as the first run left it (the result's \<open>raw\<close>: the rows with their
  date serials rewritten) it produces the same result: the same numeric and categorical
  KPIs, headers and rows. After the first run no number is left under a date column, so
  the second run finds no date column and rewrites nothing.
\<close>

theorem processData_idempotent:
  "json \<noteq> [] \<Longrightarrow>
     \<exists>a. processData nts json = Some a \<and> processData nts (raw a) = Some a"
proof -
  assume "json \<noteq> []"
  then obtain a where a: "processData nts json = Some a"
    by (simp add: processData_def Let_def)
  then show ?thesis using processData_rerun [OF a] by blast
qed

theorem processData_idempotent_witness:
  "[[(''when'', Num 45000), (''n'', Num 3)]] \<noteq> [] \<and>
   raw (the (processData toString_int [[(''when'', Num 45000), (''n'', Num 3)]]))
     = [[(''when'', Str ''2023-03-15''), (''n'', Num 3)]] \<and>
   processData toString_int [[(''when'', Str ''2023-03-15''), (''n'', Num 3)]]
     = processData toString_int [[(''when'', Num 45000), (''n'', Num 3)]]"
proof -
  let ?j = "[[(''when'', Num 45000), (''n'', Num 3)]]"
  have c: "convert_dates ?j (Object_keys [(''when'', Num 45000), (''n'', Num 3)])
             = [[(''when'', Str ''2023-03-15''), (''n'', Num 3)]]"
    by code_simp
  have r: "raw (the (processData toString_int ?j)) = [[(''when'', Str ''2023-03-15''), (''n'', Num 3)]]"
    by (simp add: processData_def Let_def raw_profile c)
  obtain a where "processData toString_int ?j = Some a" and "processData toString_int (raw a) = Some a"
    using processData_idempotent [of ?j toString_int] by auto
  then show ?thesis using r by simp
qed

subsection \<open>Categorical KPIs\<close>




























end
